theory Spec2Isabelle
  imports Complex_Main "HOL-Library.Sublist" "HOL-Library.Log_Nat" "HOL-Library.AList" "HOL-Library.Multiset"
begin

section \<open>Python values used by the add-on\<close>

text \<open>
  A Python \<open>str\<close> is a sequence of Unicode code points: indexing, slicing, \<open>find\<close> and
  \<open>split\<close> all count code points. It is modelled as a list of code points (\<open>nat\<close>), so
  that letters beyond Latin-1 (the alphabet table of \<open>yle.py\<close> has one) are single
  elements. \<open>ustr\<close> turns an ASCII literal into such a string.
\<close>

type_synonym pystr = "nat list"

definition ustr :: "string \<Rightarrow> pystr" where
  "ustr s = map of_char s"

text \<open>
  The exceptions the modelled functions can raise. \<open>RequestError\<close> stands for a failure of
  the transport. \<open>NotModelled\<close> is no exception of Python: it marks the one place where
  the model does not follow the source (a page count that is a float).
\<close>

datatype py_error =
    AttributeError
  | KeyError
  | IndexError
  | TypeError
  | ValueError
  | StopIteration
  | NameError
  | UnboundLocalError
  | RequestError
  | NotModelled

text \<open>
  \<open>except (AttributeError, LookupError, TypeError, ValueError)\<close>, the handler used all
  over \<open>yle.py\<close> and \<open>misc.py\<close>: \<open>KeyError\<close> and \<open>IndexError\<close> are the \<open>LookupError\<close>s.
\<close>

fun caught :: "py_error \<Rightarrow> bool" where
  "caught AttributeError = True"
| "caught KeyError = True"
| "caught IndexError = True"
| "caught TypeError = True"
| "caught ValueError = True"
| "caught StopIteration = False"
| "caught NameError = False"
| "caught UnboundLocalError = False"
| "caught RequestError = False"
| "caught NotModelled = False"

section \<open>misc.py: extract_suffix\<close>

text \<open>\<open>string.find(word)\<close>: the lowest index at which \<open>word\<close> occurs, \<open>-1\<close> when it does not.\<close>

fun str_find :: "pystr \<Rightarrow> pystr \<Rightarrow> int" where
  "str_find [] word = (if word = [] then 0 else - 1)"
| "str_find (c # cs) word =
     (if prefix word (c # cs) then 0
      else (let r = str_find cs word in if r < 0 then - 1 else r + 1))"

text \<open>\<open>string[start:]\<close>: a negative \<open>start\<close> counts from the end; out of range is clipped.\<close>

definition slice_from :: "pystr \<Rightarrow> int \<Rightarrow> pystr" where
  "slice_from s start =
     (if start < 0 then drop (nat (int (length s) + start)) s else drop (nat start) s)"

definition extract_suffix :: "pystr \<Rightarrow> pystr \<Rightarrow> pystr" where
  "extract_suffix word string =
     (let start = str_find string word + int (length word) in slice_from string start)"

section \<open>yle.py: extract_token\<close>

definition extract_token :: "pystr \<Rightarrow> pystr" where
  "extract_token url = extract_suffix (ustr ''token='') url"

section \<open>Decoded JSON\<close>

text \<open>
  What \<open>response.json()\<close> gives: \<open>None\<close>, \<open>bool\<close>, \<open>int\<close>, \<open>float\<close>, \<open>str\<close>, \<open>list\<close> and
  \<open>dict\<close> with \<open>str\<close> keys. A \<open>dict\<close> is an association list in insertion order; its keys
  are distinct (the decoder keeps one value per key), and a lookup reads the first pair
  with the key. A \<open>float\<close> is a binary64 value: a finite one is the rational it denotes.
\<close>

datatype pyfloat = Finite rat | PosInf | NegInf | NaN

datatype json =
    JNull
  | JBool bool
  | JInt int
  | JFloat pyfloat
  | JStr pystr
  | JArr "json list"
  | JObj "(pystr \<times> json) list"

text \<open>Python's truth test, as \<open>not x\<close>, \<open>if x\<close> and \<open>x or y\<close> apply it.\<close>

fun truthy :: "json \<Rightarrow> bool" where
  "truthy JNull = False"
| "truthy (JBool b) = b"
| "truthy (JInt i) = (i \<noteq> 0)"
| "truthy (JFloat f) = (f \<noteq> Finite 0)"
| "truthy (JStr s) = (s \<noteq> [])"
| "truthy (JArr xs) = (xs \<noteq> [])"
| "truthy (JObj kvs) = (kvs \<noteq> [])"

text \<open>
  \<open>x.get(key, default)\<close>: only a \<open>dict\<close> has the method; on every other decoded value the
  attribute lookup raises \<open>AttributeError\<close>.
\<close>

fun py_get :: "json \<Rightarrow> pystr \<Rightarrow> json \<Rightarrow> py_error + json" where
  "py_get (JObj kvs) key dflt = Inr (case map_of kvs key of Some v \<Rightarrow> v | None \<Rightarrow> dflt)"
| "py_get _ key dflt = Inl AttributeError"

text \<open>
  \<open>x[key]\<close> with a \<open>str\<close> key: a \<open>dict\<close> raises \<open>KeyError\<close> when the key is missing; a list
  or a string takes integer indices only and \<open>None\<close>, numbers and booleans are not
  subscriptable, which are all \<open>TypeError\<close>.
\<close>

fun py_item :: "json \<Rightarrow> pystr \<Rightarrow> py_error + json" where
  "py_item (JObj kvs) key = (case map_of kvs key of Some v \<Rightarrow> Inr v | None \<Rightarrow> Inl KeyError)"
| "py_item _ key = Inl TypeError"

text \<open>\<open>xs[i]\<close> on a Python list, with negative indices counting from the end.\<close>

definition list_index :: "'a list \<Rightarrow> int \<Rightarrow> py_error + 'a" where
  "list_index xs i =
     (if 0 \<le> i \<and> i < int (length xs) then Inr (xs ! nat i)
      else if i < 0 \<and> - int (length xs) \<le> i then Inr (xs ! nat (int (length xs) + i))
      else Inl IndexError)"

text \<open>Sequencing of computations that may raise.\<close>

fun err_bind :: "py_error + 'a \<Rightarrow> ('a \<Rightarrow> py_error + 'b) \<Rightarrow> py_error + 'b" where
  "err_bind (Inl e) f = Inl e"
| "err_bind (Inr x) f = f x"

text \<open>\<open>s.split(sep)\<close> for a separator of one character: never empty, one more field than separators.\<close>

fun str_split :: "pystr \<Rightarrow> nat \<Rightarrow> pystr list" where
  "str_split [] sep = [[]]"
| "str_split (c # cs) sep =
     (if c = sep then [] # str_split cs sep
      else (case str_split cs sep of [] \<Rightarrow> [[c]] | w # ws \<Rightarrow> (c # w) # ws))"

definition dash :: nat where
  "dash = of_char CHR ''-''"

definition slash :: nat where
  "slash = of_char CHR ''/''"

section \<open>yle.py: get_kaltura_id_or_none and get_stream_manifest\<close>

text \<open>
  \<open>get_kaltura_id_or_none(media_data)\<close>. The argument is what \<open>json_data.get("media_id")\<close>
  gave, \<open>None\<close> when the key is missing. The first component of the result lists the
  messages handed to \<open>log\<close> (which writes them to the host's debug log when the debug
  setting is on). In the last branch nothing is assigned to \<open>media_id\<close>, so the \<open>return\<close>
  raises \<open>UnboundLocalError\<close>; \<open>media_info[1]\<close> raises \<open>IndexError\<close> when the identifier
  has no \<open>-\<close>; \<open>split\<close> on a value that is not a string raises \<open>AttributeError\<close>.
\<close>

definition get_kaltura_id_or_none :: "json \<Rightarrow> pystr list \<times> (py_error + pystr)" where
  "get_kaltura_id_or_none media_data =
     (if \<not> truthy media_data then ([], Inr [])
      else (case media_data of
          JStr s \<Rightarrow>
            (let media_info = str_split s dash in
             (case list_index media_info 0 of
                Inl e \<Rightarrow> ([], Inl e)
              | Inr media_host \<Rightarrow>
                 if media_host = ustr ''29'' then ([], list_index media_info 1)
                 else if media_host \<in> set [ustr ''55'', ustr ''67''] then ([], Inr [])
                 else ([ustr ''Unknown stream media type: '' @ s], Inl UnboundLocalError)))
        | _ \<Rightarrow> ([], Inl AttributeError)))"

text \<open>
  \<open>get_stream_manifest(site)\<close>, on the decoded body \<open>site.json()\<close>. \<open>a or b\<close> evaluates \<open>b\<close>
  only when \<open>a\<close> is false, and is then \<open>b\<close> whatever \<open>b\<close> is.
\<close>

definition get_stream_manifest :: "json \<Rightarrow> pystr list \<times> (py_error + json \<times> pystr)" where
  "get_stream_manifest site =
     (case err_bind (err_bind (py_item site (ustr ''data''))
                       (\<lambda>d. py_get d (ustr ''ongoing_ondemand'') (JObj [])))
              (\<lambda>a. if truthy a then Inr a
                    else err_bind (py_item site (ustr ''data''))
                           (\<lambda>d. py_get d (ustr ''ongoing_event'') (JObj []))) of
        Inl e \<Rightarrow> ([], Inl e)
      | Inr json_data \<Rightarrow>
          (case py_get json_data (ustr ''manifest_url'') JNull of
             Inl e \<Rightarrow> ([], Inl e)
           | Inr manifest_url \<Rightarrow>
              (case py_get json_data (ustr ''media_id'') JNull of
                 Inl e \<Rightarrow> ([], Inl e)
               | Inr media_data \<Rightarrow>
                  (case get_kaltura_id_or_none media_data of
                     (logged, Inl e) \<Rightarrow> (logged, Inl e)
                   | (logged, Inr kaltura_id) \<Rightarrow> (logged, Inr (manifest_url, kaltura_id))))))"

section \<open>kaltura.py\<close>

text \<open>
  \<open>x[i]\<close> with an integer index on a decoded value: a list is indexed, a string gives
  the one-character string, a \<open>dict\<close> (whose keys are strings) has no such key, and the
  rest is not subscriptable.
\<close>

fun py_index :: "json \<Rightarrow> int \<Rightarrow> py_error + json" where
  "py_index (JArr xs) i = list_index xs i"
| "py_index (JStr s) i = map_sum id (\<lambda>c. JStr [c]) (list_index s i)"
| "py_index (JObj kvs) i = Inl KeyError"
| "py_index _ i = Inl TypeError"

text \<open>
  \<open>iter(x)\<close>, as a \<open>for\<close> clause takes it: the elements of a list, the characters of a
  string, the keys of a \<open>dict\<close>; anything else is not iterable.
\<close>

fun py_iter :: "json \<Rightarrow> py_error + json list" where
  "py_iter (JArr xs) = Inr xs"
| "py_iter (JStr s) = Inr (map (\<lambda>c. JStr [c]) s)"
| "py_iter (JObj kvs) = Inr (map (\<lambda>kv. JStr (fst kv)) kvs)"
| "py_iter _ = Inl TypeError"

text \<open>\<open>v == k\<close> for an \<open>int\<close> constant \<open>k\<close>: numbers compare by value, \<open>True\<close> is \<open>1\<close>.\<close>

fun py_eq_int :: "json \<Rightarrow> int \<Rightarrow> bool" where
  "py_eq_int (JInt i) k = (i = k)"
| "py_eq_int (JFloat (Finite q)) k = (q = of_int k)"
| "py_eq_int (JBool b) k = ((if b then 1 else 0) = k)"
| "py_eq_int _ k = False"

definition get_api_url :: "pystr \<Rightarrow> pystr" where
  "get_api_url service = ustr ''https://cdnapisec.kaltura.com/api_v3/service/'' @ service"

text \<open>
  \<open>get_subtitle_url(url)\<close>: \<open>extract_suffix\<close> calls \<open>url.find\<close>, which only a string has.
\<close>

fun get_subtitle_url :: "json \<Rightarrow> py_error + pystr" where
  "get_subtitle_url (JStr url) = Inr (get_api_url (extract_suffix (ustr ''service/'') url))"
| "get_subtitle_url _ = Inl AttributeError"

definition get_api_payload :: "pystr \<Rightarrow> json" where
  "get_api_payload entry_id =
     JObj [(ustr ''apiVersion'', JStr (ustr ''3.3.0'')),
           (ustr ''format'', JInt 1),
           (ustr ''ks'', JStr []),
           (ustr ''clientTag'', JStr (ustr ''html5:v0.39.4'')),
           (ustr ''partnerId'', JStr (ustr ''1955031'')),
           (ustr ''0'', JObj [(ustr ''service'', JStr (ustr ''session'')),
                             (ustr ''action'', JStr (ustr ''startWidgetSession'')),
                             (ustr ''widgetId'', JStr (ustr ''_1955031''))]),
           (ustr ''1'', JObj [(ustr ''service'', JStr (ustr ''baseEntry'')),
                             (ustr ''action'', JStr (ustr ''getPlaybackContext'')),
                             (ustr ''entryId'', JStr entry_id),
                             (ustr ''ks'', JStr (ustr ''{1:result:ks}'')),
                             (ustr ''contextDataParams'',
                                JObj [(ustr ''objectType'', JStr (ustr ''KalturaContextDataParams'')),
                                      (ustr ''flavorTags'', JStr (ustr ''all''))])])]"

text \<open>
  The three delivery profile ids of \<open>get_hd_mpd_stream_manifest\<close>. For any other mode
  \<open>target_stream\<close> is never assigned.
\<close>

definition target_stream :: "pystr \<Rightarrow> int option" where
  "target_stream mode =
     (if mode = ustr ''live'' then Some 16231
      else if mode = ustr ''download'' then Some 14441
      else if mode = ustr ''vod'' then Some 14471
      else None)"

text \<open>
  \<open>next(s.get("url") for s in sources if s.get("deliveryProfileId") == target_stream)\<close>:
  the sources are tried in order and the first hit ends the search. \<open>s.get\<close> needs a
  \<open>dict\<close>; the unassigned \<open>target_stream\<close> is a free variable of the generator, read after
  \<open>s.get(...)\<close> (\<open>NameError\<close>); an exhausted generator makes \<open>next\<close> raise \<open>StopIteration\<close>.
\<close>

fun next_source :: "json list \<Rightarrow> int option \<Rightarrow> py_error + json" where
  "next_source [] target = Inl StopIteration"
| "next_source (s # ss) target =
     (case py_get s (ustr ''deliveryProfileId'') JNull of
        Inl e \<Rightarrow> Inl e
      | Inr v \<Rightarrow>
         (case target of
            None \<Rightarrow> Inl NameError
          | Some k \<Rightarrow>
             if py_eq_int v k then py_get s (ustr ''url'') JNull
             else next_source ss target))"

text \<open>
  \<open>re.sub("[0-9][^,/]+,", "", manifest)\<close>. A match at the head of a string is a digit, then
  a longest run (of one character at least) of characters other than \<open>,\<close> and \<open>/\<close>, then
  \<open>,\<close>; the run cannot be cut short, since the character after a shorter run is not \<open>,\<close>.
  \<open>flavor_match\<close> gives the text after such a match. \<open>re_sub_flavors\<close> scans from the left:
  a match is deleted and the scan goes on behind it, any other character is kept.
\<close>

definition is_digit :: "nat \<Rightarrow> bool" where
  "is_digit c = (of_char CHR ''0'' \<le> c \<and> c \<le> of_char CHR ''9'')"

definition comma :: nat where
  "comma = of_char CHR '',''"

definition flavor_char :: "nat \<Rightarrow> bool" where
  "flavor_char c = (c \<noteq> comma \<and> c \<noteq> slash)"

fun flavor_match :: "pystr \<Rightarrow> pystr option" where
  "flavor_match [] = None"
| "flavor_match (d # rest) =
     (if is_digit d \<and> takeWhile flavor_char rest \<noteq> [] then
        (case dropWhile flavor_char rest of
           [] \<Rightarrow> None
         | c # after \<Rightarrow> if c = comma then Some after else None)
      else None)"

function re_sub_flavors :: "pystr \<Rightarrow> pystr" where
  "re_sub_flavors [] = []"
| "re_sub_flavors (c # cs) =
     (case flavor_match (c # cs) of
        Some after \<Rightarrow> re_sub_flavors after
      | None \<Rightarrow> c # re_sub_flavors cs)"
  by pat_completeness auto
termination
proof (relation "measure length")
  show "wf (measure length)" by simp
next
  fix c :: nat and cs after :: pystr
  assume "flavor_match (c # cs) = Some after"
  then have "\<exists>x. dropWhile flavor_char cs = x # after"
    by (auto split: if_splits list.splits)
  then obtain x where "dropWhile flavor_char cs = x # after" ..
  then have "length (x # after) \<le> length cs"
    by (metis length_dropWhile_le)
  then show "(after, c # cs) \<in> measure length" by simp
next
  fix c :: nat and cs :: pystr
  show "(cs, c # cs) \<in> measure length" by simp
qed

text \<open>
  \<open>get_hd_mpd_stream_manifest(site, mode)\<close> on the decoded body. \<open>re.sub\<close> takes a string
  only (\<open>TypeError\<close> on \<open>None\<close> and the rest). The \<open>log\<close> call is left out: it dumps the
  body to the debug log and computes nothing.
\<close>

definition get_hd_mpd_stream_manifest :: "json \<Rightarrow> pystr \<Rightarrow> py_error + json" where
  "get_hd_mpd_stream_manifest site mode =
     err_bind (err_bind (py_index site 1) (\<lambda>r. py_item r (ustr ''sources''))) (\<lambda>sources.
     err_bind (py_iter sources) (\<lambda>srcs.
     err_bind (next_source srcs (target_stream mode)) (\<lambda>manifest.
       if mode = ustr ''download'' then
         (case manifest of
            JStr m \<Rightarrow> Inr (JStr (re_sub_flavors m))
          | _ \<Rightarrow> Inl TypeError)
       else Inr manifest)))"

text \<open>
  Vocabulary for statements about the resolver: a field of a source (\<open>None\<close> when the key
  is missing), \<open>",".join(ts)\<close>, and a flavor token of a manifest URL: a digit followed by
  one character at least, none of them \<open>,\<close> or \<open>/\<close>.
\<close>

definition source_field :: "json \<Rightarrow> pystr \<Rightarrow> json" where
  "source_field s key =
     (case s of
        JObj kvs \<Rightarrow> (case map_of kvs key of Some v \<Rightarrow> v | None \<Rightarrow> JNull)
      | _ \<Rightarrow> JNull)"

definition is_dict :: "json \<Rightarrow> bool" where
  "is_dict x = (case x of JObj kvs \<Rightarrow> True | _ \<Rightarrow> False)"



section \<open>Python floats\<close>

text \<open>
  A Python \<open>float\<close> is an IEEE 754 binary64 number. A finite one is modelled by the
  rational it denotes (the two zeros are not told apart: no value below is negative).
  \<open>round_double q\<close> is the binary64 value nearest to the rational \<open>q\<close>, ties going
  to the even significand: the significand has 53 bits, the exponent of the last bit is
  at least \<open>-1074\<close>, and a result of \<open>2^1024\<close> or more is infinite.
\<close>

definition pow2 :: "int \<Rightarrow> rat" where
  "pow2 e = (if 0 \<le> e then 2 ^ nat e else 1 / 2 ^ nat (- e))"

definition pow10 :: "int \<Rightarrow> rat" where
  "pow10 e = (if 0 \<le> e then 10 ^ nat e else 1 / 10 ^ nat (- e))"

text \<open>For \<open>q > 0\<close>: the \<open>e\<close> with \<open>2^e \<le> q < 2^(e+1)\<close>, found from the bit lengths of the fraction.\<close>

definition floor_log2 :: "rat \<Rightarrow> int" where
  "floor_log2 q =
     (let (a, b) = quotient_of q; k = bitlen a - bitlen b
      in if pow2 k \<le> q then k else k - 1)"

definition round_half_even :: "rat \<Rightarrow> int" where
  "round_half_even x =
     (let f = \<lfloor>x\<rfloor>; d = x - of_int f
      in if d < 1 / 2 then f else if 1 / 2 < d then f + 1 else if even f then f else f + 1)"

definition round_positive :: "rat \<Rightarrow> rat option" where
  "round_positive q =
     (let e = max (floor_log2 q) (- 1022);
          ulp = pow2 (e - 52);
          r = of_int (round_half_even (q / ulp)) * ulp
      in if pow2 1024 \<le> r then None else Some r)"

definition round_double :: "rat \<Rightarrow> pyfloat" where
  "round_double q =
     (if q = 0 then Finite 0
      else if 0 < q then (case round_positive q of None \<Rightarrow> PosInf | Some r \<Rightarrow> Finite r)
      else (case round_positive (- q) of None \<Rightarrow> NegInf | Some r \<Rightarrow> Finite (- r)))"

fun float_mul :: "pyfloat \<Rightarrow> pyfloat \<Rightarrow> pyfloat" where
  "float_mul (Finite a) (Finite b) = round_double (a * b)"
| "float_mul NaN y = NaN"
| "float_mul x NaN = NaN"
| "float_mul (Finite a) PosInf = (if a = 0 then NaN else if 0 < a then PosInf else NegInf)"
| "float_mul (Finite a) NegInf = (if a = 0 then NaN else if 0 < a then NegInf else PosInf)"
| "float_mul PosInf (Finite b) = (if b = 0 then NaN else if 0 < b then PosInf else NegInf)"
| "float_mul NegInf (Finite b) = (if b = 0 then NaN else if 0 < b then NegInf else PosInf)"
| "float_mul PosInf PosInf = PosInf"
| "float_mul PosInf NegInf = NegInf"
| "float_mul NegInf PosInf = NegInf"
| "float_mul NegInf NegInf = PosInf"

fun float_add :: "pyfloat \<Rightarrow> pyfloat \<Rightarrow> pyfloat" where
  "float_add (Finite a) (Finite b) = round_double (a + b)"
| "float_add NaN y = NaN"
| "float_add x NaN = NaN"
| "float_add PosInf NegInf = NaN"
| "float_add NegInf PosInf = NaN"
| "float_add PosInf y = PosInf"
| "float_add NegInf y = NegInf"
| "float_add (Finite a) PosInf = PosInf"
| "float_add (Finite a) NegInf = NegInf"

text \<open>
  \<open>str(x)\<close> of a float is its \<open>repr\<close>: the shortest decimal digit string that reads back
  to the same float and, among those, the one nearest to it, printed in fixed notation
  with a decimal point, or with an exponent when the decimal point would stand more than
  16 digits right or more than 3 zeros left of the first digit.

  \<open>floor_log10 x\<close> for \<open>x > 0\<close>: the \<open>E\<close> with \<open>10^E \<le> x < 10^(E+1)\<close>, from an estimate that
  is off by one at most in the range of binary64.
\<close>

definition floor_log10 :: "rat \<Rightarrow> int" where
  "floor_log10 x =
     (let k = (floor_log2 x * 30103) div 100000
      in if pow10 (k + 1) \<le> x then k + 1 else if pow10 k \<le> x then k else k - 1)"

text \<open>
  With \<open>n\<close> significant digits the two decimals around \<open>x\<close> are \<open>lo\<close> and \<open>lo + 1\<close>
  units of \<open>10^(E-n+1)\<close>. The search takes the least \<open>n\<close> for which one of them reads back
  to \<open>x\<close>; seventeen digits always do.
\<close>

fun shortest_digits :: "rat \<Rightarrow> int \<Rightarrow> nat list \<Rightarrow> int \<times> int" where
  "shortest_digits x E [] = (\<lfloor>x / pow10 (E - 16)\<rfloor>, E - 16)"
| "shortest_digits x E (n # ns) =
     (let k = E - int n + 1;
          lo = \<lfloor>x / pow10 k\<rfloor>;
          ok_lo = (round_double (of_int lo * pow10 k) = Finite x);
          ok_hi = (round_double (of_int (lo + 1) * pow10 k) = Finite x);
          lo_nearer = (x - of_int lo * pow10 k < of_int (lo + 1) * pow10 k - x
                       \<or> (x - of_int lo * pow10 k = of_int (lo + 1) * pow10 k - x \<and> even lo))
      in if ok_lo \<and> (\<not> ok_hi \<or> lo_nearer) then (lo, k)
         else if ok_hi then (lo + 1, k)
         else shortest_digits x E ns)"

text \<open>Decimal digits of a number that is not negative, and \<open>str\<close> of an \<open>int\<close>.\<close>

definition digit_char :: "int \<Rightarrow> nat" where
  "digit_char d = of_char CHR ''0'' + nat d"

function str_digits :: "int \<Rightarrow> pystr" where
  "str_digits n =
     (if n < 10 then [digit_char n] else str_digits (n div 10) @ [digit_char (n mod 10)])"
  by pat_completeness auto
termination
  by (relation "measure nat") auto

definition str_int :: "int \<Rightarrow> pystr" where
  "str_int i = (if i < 0 then ustr ''-'' @ str_digits (- i) else str_digits i)"

fun strip_zeros :: "int \<times> int \<Rightarrow> nat \<Rightarrow> int \<times> int" where
  "strip_zeros (m, k) 0 = (m, k)"
| "strip_zeros (m, k) (Suc fuel) =
     (if m \<noteq> 0 \<and> m mod 10 = 0 then strip_zeros (m div 10, k + 1) fuel else (m, k))"

text \<open>
  The layout of \<open>repr\<close>: \<open>digits\<close> are the significant digits and \<open>decpt\<close> the position of
  the decimal point counted from their left end.
\<close>

definition float_layout :: "pystr \<Rightarrow> int \<Rightarrow> pystr" where
  "float_layout digits decpt =
     (let n = int (length digits) in
      if decpt \<le> - 4 \<or> 16 < decpt then
        take 1 digits @ (if 1 < n then ustr ''.'' @ drop 1 digits else []) @ ustr ''e'' @
        (if decpt - 1 < 0 then ustr ''-'' else ustr ''+'') @
        (if \<bar>decpt - 1\<bar> < 10 then ustr ''0'' else []) @ str_digits \<bar>decpt - 1\<bar>
      else if decpt \<le> 0 then
        ustr ''0.'' @ replicate (nat (- decpt)) (digit_char 0) @ digits
      else if n \<le> decpt then
        digits @ replicate (nat (decpt - n)) (digit_char 0) @ ustr ''.0''
      else take (nat decpt) digits @ ustr ''.'' @ drop (nat decpt) digits)"

definition repr_positive :: "rat \<Rightarrow> pystr" where
  "repr_positive x =
     (let (m, k) = strip_zeros (shortest_digits x (floor_log10 x) [1 ..< 18]) 17;
          digits = str_digits m
      in float_layout digits (int (length digits) + k))"

fun float_repr :: "pyfloat \<Rightarrow> pystr" where
  "float_repr (Finite x) =
     (if x = 0 then ustr ''0.0''
      else if 0 < x then repr_positive x
      else ustr ''-'' @ repr_positive (- x))"
| "float_repr PosInf = ustr ''inf''"
| "float_repr NegInf = ustr ''-inf''"
| "float_repr NaN = ustr ''nan''"

text \<open>
  \<open>str(v)\<close> of a decoded value, which is also what an f-string puts for \<open>{v}\<close>. The
  text of a list or a \<open>dict\<close> (the \<open>repr\<close> of the elements, with Python's quoting of
  strings) is not modelled: it is the parameter \<open>fmt\<close>.
\<close>

fun py_str :: "(json \<Rightarrow> pystr) \<Rightarrow> json \<Rightarrow> pystr" where
  "py_str fmt JNull = ustr ''None''"
| "py_str fmt (JBool b) = (if b then ustr ''True'' else ustr ''False'')"
| "py_str fmt (JInt i) = str_int i"
| "py_str fmt (JFloat f) = float_repr f"
| "py_str fmt (JStr s) = s"
| "py_str fmt (JArr xs) = fmt (JArr xs)"
| "py_str fmt (JObj kvs) = fmt (JObj kvs)"

section \<open>kaltura.py: get_subtitles\<close>

text \<open>
  \<open>get_subtitles(site)\<close>. The keys are built with an f-string, which formats a decoded
  value with \<open>str\<close> (\<open>py_str\<close> above). A \<open>dict\<close>
  comprehension stores the pairs in order, a repeated key keeping its place and taking
  the later value.
\<close>

fun subtitle_entries ::
  "(json \<Rightarrow> pystr) \<Rightarrow> json list \<Rightarrow> (pystr \<times> pystr) list \<Rightarrow> py_error + (pystr \<times> pystr) list"
where
  "subtitle_entries fmt [] acc = Inr acc"
| "subtitle_entries fmt (c # cs) acc =
     err_bind (py_get c (ustr ''label'') JNull) (\<lambda>label.
     err_bind (py_get c (ustr ''languageCode'') JNull) (\<lambda>code.
     err_bind (err_bind (py_get c (ustr ''url'') JNull) get_subtitle_url) (\<lambda>url.
       subtitle_entries fmt cs
         (AList.update (ustr ''.'' @ py_str fmt label @ ustr ''-'' @ py_str fmt code @ ustr ''.sub'')
            url acc))))"

definition get_subtitles :: "(json \<Rightarrow> pystr) \<Rightarrow> json \<Rightarrow> py_error + (pystr \<times> pystr) list" where
  "get_subtitles fmt site =
     err_bind (err_bind (py_index site 1) (\<lambda>r. py_item r (ustr ''playbackCaptions''))) (\<lambda>subs.
     err_bind (py_iter subs) (\<lambda>cs. subtitle_entries fmt cs []))"

section \<open>network.py: the transport\<close>

text \<open>
  \<open>get_url_response(url, body)\<close> posts a body that is true and gets otherwise; a status
  that is not a success raises. Every caller modelled here reads \<open>res.json()\<close> first, so
  the transport is taken as giving the decoded body, or the exception of the request or
  of the decoding. It is a parameter of the model: a \<open>GET\<close> and a \<open>POST\<close> function. The
  \<open>log\<close> calls of the transport are left out.
\<close>

record transport =
  http_get :: "pystr \<Rightarrow> py_error + json"
  http_post :: "pystr \<Rightarrow> json \<Rightarrow> py_error + json"

definition get_url_response :: "transport \<Rightarrow> pystr \<Rightarrow> json \<Rightarrow> py_error + json" where
  "get_url_response net url body =
     (if truthy body then http_post net url body else http_get net url)"

section \<open>router.py: stream resolution\<close>

definition get_api_stream_url :: "pystr \<Rightarrow> pystr" where
  "get_api_stream_url media_id =
     ustr ''https://player.api.yle.fi/v1/preview/'' @ media_id @
     ustr ''.json?language=fin&ssl=true&countryCode=FI&host=areenaylefi'' @
     ustr ''&app_id=player_static_prod&app_key=8930d72170e48303cf5f3867780d549b''"

definition get_hls_stream_manifest ::
  "transport \<Rightarrow> pystr \<Rightarrow> pystr list \<times> (py_error + json \<times> pystr)" where
  "get_hls_stream_manifest net yle_id =
     (case get_url_response net (get_api_stream_url yle_id) JNull of
        Inl e \<Rightarrow> ([], Inl e)
      | Inr res \<Rightarrow> get_stream_manifest res)"

text \<open>The subtitles are \<open>None\<close> unless the mode is \<open>download\<close>.\<close>

definition get_mpd_stream_manifest ::
  "transport \<Rightarrow> (json \<Rightarrow> pystr) \<Rightarrow> pystr \<Rightarrow> pystr
     \<Rightarrow> py_error + json \<times> (pystr \<times> pystr) list option" where
  "get_mpd_stream_manifest net fmt kaltura_id mode =
     err_bind (get_url_response net (get_api_url (ustr ''multirequest''))
                 (get_api_payload kaltura_id)) (\<lambda>res.
     err_bind (get_hd_mpd_stream_manifest res mode) (\<lambda>manifest.
       if mode = ustr ''download''
       then err_bind (get_subtitles fmt res) (\<lambda>subtitles. Inr (manifest, Some subtitles))
       else Inr (manifest, None)))"

text \<open>
  \<open>get_vod_stream_manifest(yle_id, kaltura_id, mode)\<close>; \<open>kaltura_id\<close> is a string, empty
  when the caller has none. The result is \<open>(manifest, stream_format, subs)\<close>, with the
  messages logged on the way. The second \<open>if\<close> of the source tests the id the first one may
  have assigned.
\<close>

definition get_vod_stream_manifest ::
  "transport \<Rightarrow> (json \<Rightarrow> pystr) \<Rightarrow> pystr \<Rightarrow> pystr \<Rightarrow> pystr
     \<Rightarrow> pystr list \<times> (py_error + json \<times> pystr \<times> (pystr \<times> pystr) list option)" where
  "get_vod_stream_manifest net fmt yle_id kaltura_id mode =
     (if kaltura_id = [] then
        (case get_hls_stream_manifest net yle_id of
           (logged, Inl e) \<Rightarrow> (logged, Inl e)
         | (logged, Inr (manifest, kaltura_id')) \<Rightarrow>
             if kaltura_id' \<noteq> [] then
               (logged, map_sum id (\<lambda>(manifest', subs). (manifest', ustr ''mpd'', subs))
                          (get_mpd_stream_manifest net fmt kaltura_id' mode))
             else (logged, Inr (manifest, ustr ''hls'', Some [])))
      else
        ([], map_sum id (\<lambda>(manifest', subs). (manifest', ustr ''mpd'', subs))
               (get_mpd_stream_manifest net fmt kaltura_id mode)))"

section \<open>yle.py: sort_alphabetical_categories\<close>

text \<open>
  The entries are the dictionaries \<open>get_alphabetical_categories\<close> builds:
  \<open>{"name": ..., "api_data": {"type", "yle_id", "count", "api_tok"}}\<close>, with \<open>"offset"\<close>
  added to \<open>api_data\<close> by the sequencer (absent before). Each entry is a dictionary of
  its own, so the assignment to one entry changes no other.
\<close>

record bucket_api =
  api_type :: pystr
  api_yle_id :: pystr
  api_count :: int
  api_tok :: pystr
  api_offset :: "int option"

record bucket =
  bucket_name :: pystr
  bucket_api_data :: bucket_api

text \<open>
  The ordering table. The letters beyond ASCII are single code points:
  \<open>U+00C0\<close>, \<open>U+00DE\<close>, \<open>U+017D\<close>, \<open>U+00C5\<close>, \<open>U+00C4\<close>, \<open>U+00D6\<close>.
\<close>

definition alphabet :: "pystr list" where
  "alphabet =
     [ustr ''0-9'', ustr ''A'', [192], ustr ''B'', ustr ''C'', ustr ''D'', ustr ''E'', ustr ''F'',
      ustr ''G'', ustr ''H'', ustr ''I'', ustr ''J'', ustr ''K'', ustr ''L'', ustr ''M'', ustr ''N'',
      ustr ''O'', ustr ''P'', ustr ''Q'', ustr ''R'', ustr ''S'', ustr ''T'', [222], ustr ''U'',
      ustr ''V'', ustr ''W'', ustr ''X'', ustr ''Y'', ustr ''Z'', [381], [197], [196], [214]]"

text \<open>\<open>xs.index(x)\<close>: the position of the first element equal to \<open>x\<close>, \<open>ValueError\<close> without one.\<close>

fun index_of :: "'a list \<Rightarrow> 'a \<Rightarrow> py_error + nat" where
  "index_of [] x = Inl ValueError"
| "index_of (y # ys) x = (if y = x then Inr 0 else map_sum id Suc (index_of ys x))"

text \<open>
  \<open>sorted(categories, key=...)\<close> computes the key of every entry, in list order (the first
  name that is not in the table raises), and sorts by the keys, keeping the order of
  entries with equal keys.
\<close>

fun sort_keys :: "bucket list \<Rightarrow> py_error + (nat \<times> bucket) list" where
  "sort_keys [] = Inr []"
| "sort_keys (entry # entries) =
     err_bind (index_of alphabet (bucket_name entry)) (\<lambda>k.
     err_bind (sort_keys entries) (\<lambda>ks. Inr ((k, entry) # ks)))"

text \<open>The loop over the sorted entries, with the running \<open>offset\<close>.\<close>

fun set_offsets :: "int \<Rightarrow> bucket list \<Rightarrow> bucket list" where
  "set_offsets offset [] = []"
| "set_offsets offset (item # items) =
     item\<lparr>bucket_api_data := (bucket_api_data item)\<lparr>api_offset := Some offset\<rparr>\<rparr>
       # set_offsets (offset + api_count (bucket_api_data item)) items"

definition sort_alphabetical_categories :: "bucket list \<Rightarrow> py_error + bucket list" where
  "sort_alphabetical_categories categories =
     err_bind (sort_keys categories) (\<lambda>keyed.
       Inr (set_offsets 0 (map snd (sort_key fst keyed))))"

text \<open>A bucket as \<open>get_alphabetical_categories\<close> makes it, and the position of a name in the table.\<close>

definition mk_bucket :: "pystr \<Rightarrow> int \<Rightarrow> bucket" where
  "mk_bucket nm cnt =
     \<lparr>bucket_name = nm,
      bucket_api_data = \<lparr>api_type = ustr ''subcategory'', api_yle_id = ustr ''-'',
                         api_count = cnt, api_tok = [], api_offset = None\<rparr>\<rparr>"

definition alphabet_pos :: "pystr \<Rightarrow> nat" where
  "alphabet_pos nm = length (takeWhile (\<lambda>a. a \<noteq> nm) alphabet)"

definition clear_offset :: "bucket \<Rightarrow> bucket" where
  "clear_offset b = b\<lparr>bucket_api_data := (bucket_api_data b)\<lparr>api_offset := None\<rparr>\<rparr>"


section \<open>misc.py: get_duration_seconds\<close>

text \<open>
  The pattern of \<open>get_duration_seconds\<close>, read piece by piece. A number is
  \<open>[0-9]+([,.][0-9]+)?\<close>: the longest run of digits and, when a \<open>,\<close> or \<open>.\<close> with a digit
  behind it follows, that sign and the longest run of digits behind it. Every group of
  the pattern is a number followed by its letter, so a shorter number never matches
  where the longest does not: the matcher has no choice to revisit.
\<close>

definition dot :: nat where
  "dot = of_char CHR ''.''"

definition number_prefix :: "pystr \<Rightarrow> (pystr \<times> pystr) option" where
  "number_prefix s =
     (let whole = takeWhile is_digit s; rest = dropWhile is_digit s in
      if whole = [] then None
      else (case rest of
              [] \<Rightarrow> Some (whole, [])
            | c # r \<Rightarrow>
                if (c = comma \<or> c = dot) \<and> takeWhile is_digit r \<noteq> []
                then Some (whole @ c # takeWhile is_digit r, dropWhile is_digit r)
                else Some (whole, rest)))"

text \<open>
  An optional group \<open>(number letter)?\<close>: the captured number and the text behind the
  group when it matches, \<open>None\<close> and the text unchanged when it does not.
\<close>

definition component :: "char \<Rightarrow> pystr \<Rightarrow> pystr option \<times> pystr" where
  "component letter s =
     (case number_prefix s of
        Some (n, c # r) \<Rightarrow> if c = of_char letter then (Some n, r) else (None, s)
      | _ \<Rightarrow> (None, s))"

text \<open>\<open>$\<close> matches at the end of the string and before a newline that ends it.\<close>

definition at_end :: "pystr \<Rightarrow> bool" where
  "at_end s = (s = [] \<or> s = [10])"

text \<open>
  \<open>(?!\b)\<close> behind \<open>P\<close>: there must be no word boundary, so the next character exists
  and is a word character. For a character beyond ASCII the answer of Python depends on
  its Unicode class; the model says no, and the match fails either way, since no group
  matches such a character.
\<close>

definition is_word_char :: "nat \<Rightarrow> bool" where
  "is_word_char c =
     (is_digit c \<or> c = of_char CHR ''_'' \<or>
      (of_char CHR ''a'' \<le> c \<and> c \<le> of_char CHR ''z'') \<or>
      (of_char CHR ''A'' \<le> c \<and> c \<le> of_char CHR ''Z''))"

text \<open>
  \<open>re.match(rgx, time_stamp)\<close>: \<open>None\<close> without a match, else the groups \<open>hours\<close>,
  \<open>minutes\<close> and \<open>seconds\<close> (the other groups are never read).
\<close>

definition time_part :: "pystr \<Rightarrow> (pystr option \<times> pystr option \<times> pystr option) option" where
  "time_part s =
     (let (hours, s1) = component CHR ''H'' s;
          (minutes, s2) = component CHR ''M'' s1;
          (seconds, s3) = component CHR ''S'' s2
      in if at_end s3 then Some (hours, minutes, seconds) else None)"

definition date_part :: "pystr \<Rightarrow> pystr" where
  "date_part s =
     (let (years, s1) = component CHR ''Y'' s;
          (months, s2) = component CHR ''M'' s1;
          (weeks, s3) = component CHR ''W'' s2;
          (days, s4) = component CHR ''D'' s3
      in s4)"

definition iso_match :: "pystr \<Rightarrow> (pystr option \<times> pystr option \<times> pystr option) option" where
  "iso_match s =
     (let unsigned = (case s of
                        [] \<Rightarrow> []
                      | c # r \<Rightarrow> if c = of_char CHR ''+'' \<or> c = of_char CHR ''-'' then r else s)
      in case unsigned of
           [] \<Rightarrow> None
         | p # body \<Rightarrow>
             if p \<noteq> of_char CHR ''P'' then None
             else (case body of
                     [] \<Rightarrow> None
                   | d # ds \<Rightarrow>
                       if \<not> is_word_char d then None
                       else (case date_part body of
                               [] \<Rightarrow> Some (None, None, None)
                             | t # rest \<Rightarrow>
                                 if t = of_char CHR ''T'' then time_part rest
                                 else if at_end (t # rest) then Some (None, None, None)
                                 else None)))"

text \<open>
  \<open>float(s)\<close> on a captured number: digits, or digits, \<open>.\<close> or \<open>,\<close> and digits. Python
  reads the form with \<open>.\<close> as the nearest float and raises \<open>ValueError\<close> on the form with
  \<open>,\<close>. The pattern captures nothing else; for other strings the model answers
  \<open>ValueError\<close> also where Python's \<open>float\<close> would read them (signs, exponents, spaces).
\<close>

definition digits_value :: "pystr \<Rightarrow> int" where
  "digits_value ds = foldl (\<lambda>a c. 10 * a + (int c - int (of_char CHR ''0''))) 0 ds"

definition float_of_capture :: "pystr \<Rightarrow> py_error + pyfloat" where
  "float_of_capture s =
     (let whole = takeWhile is_digit s; rest = dropWhile is_digit s in
      if whole = [] then Inl ValueError
      else (case rest of
              [] \<Rightarrow> Inr (round_double (of_int (digits_value whole)))
            | c # decimals \<Rightarrow>
                if c = dot \<and> decimals \<noteq> [] \<and> list_all is_digit decimals
                then Inr (round_double
                            (of_int (digits_value (whole @ decimals)) / 10 ^ length decimals))
                else Inl ValueError))"

text \<open>\<open>float(group or 0)\<close>: a group that did not take part is \<open>None\<close>, and \<open>float(0)\<close> is \<open>0.0\<close>.\<close>

fun float_or_zero :: "pystr option \<Rightarrow> py_error + pyfloat" where
  "float_or_zero None = Inr (Finite 0)"
| "float_or_zero (Some n) = float_of_capture n"

text \<open>
  \<open>get_duration_seconds(time_stamp)\<close>. The \<open>try\<close> covers the match only: \<open>re.match\<close> on a
  value that is not a string (\<open>TypeError\<close>) and \<open>groupdict\<close> on the \<open>None\<close> of a failed
  match (\<open>AttributeError\<close>) give the empty string. The sum is computed outside the \<open>try\<close>,
  left to right, so an exception of \<open>float\<close> leaves the function.
\<close>

definition get_duration_seconds :: "json \<Rightarrow> py_error + pystr" where
  "get_duration_seconds time_stamp =
     (case time_stamp of
        JStr s \<Rightarrow>
          (case iso_match s of
             None \<Rightarrow> Inr []
           | Some (hours, minutes, seconds) \<Rightarrow>
               err_bind (float_or_zero hours) (\<lambda>h.
               err_bind (float_or_zero minutes) (\<lambda>m.
               err_bind (float_or_zero seconds) (\<lambda>sec.
                 Inr (float_repr
                        (float_add (float_add (float_mul h (Finite 3600))
                                              (float_mul m (Finite 60))) sec))))))
      | _ \<Rightarrow> Inr [])"

text \<open>
  Vocabulary for statements about durations: a whole number is a run of digits that is
  not empty, a number may carry a decimal part behind \<open>,\<close> or \<open>.\<close>, and an optional
  component of a duration is nothing or a number with its letter.
\<close>

definition whole_number :: "pystr \<Rightarrow> bool" where
  "whole_number n = (n \<noteq> [] \<and> list_all is_digit n)"

definition decimal_number :: "pystr \<Rightarrow> bool" where
  "decimal_number n =
     (whole_number n \<or>
      (\<exists>a c b. n = a @ c # b \<and> whole_number a \<and> (c = comma \<or> c = dot) \<and> whole_number b))"

fun opt_component :: "pystr option \<Rightarrow> char \<Rightarrow> pystr" where
  "opt_component None letter = []"
| "opt_component (Some n) letter = n @ [of_char letter]"

fun opt_value :: "pystr option \<Rightarrow> int" where
  "opt_value None = 0"
| "opt_value (Some n) = digits_value n"

section \<open>yle.py: the Catalog Parser for JSON content lists\<close>

definition get_package_path :: "pystr \<Rightarrow> pystr option" where
  "get_package_path locale =
     map_of [(ustr ''fi'', ustr ''/tv/ohjelmat/''), (ustr ''sv'', ustr ''/tv/program/'')] locale"

definition get_image_url :: "(json \<Rightarrow> pystr) \<Rightarrow> json \<Rightarrow> json \<Rightarrow> pystr" where
  "get_image_url fmt version ident =
     ustr ''https://images.cdn.yle.fi/image/upload/'' @
     ustr ''ar_16:9,w_720,c_fit,d_yle-areena.jpg,f_auto,fl_lossy,q_auto:eco/'' @
     ustr ''v'' @ py_str fmt version @ ustr ''/'' @ py_str fmt ident @ ustr ''.jpg''"

text \<open>
  \<open>extract_duration_timestamp(json_data)\<close>. The generator is made from \<open>iter(json_data)\<close>
  (\<open>TypeError\<close> for a value that is not iterable); \<open>next\<close> runs it to the first element
  \<open>i\<close> with \<open>i.get("rawType") == "duration"\<close> and gives \<open>i.get("raw")\<close>; \<open>i.get\<close> on an
  element that is not a \<open>dict\<close> raises \<open>AttributeError\<close> out of \<open>next\<close>. Only the
  \<open>StopIteration\<close> of the exhausted generator is handled here.
\<close>

fun next_duration :: "json list \<Rightarrow> py_error + json" where
  "next_duration [] = Inl StopIteration"
| "next_duration (i # items) =
     err_bind (py_get i (ustr ''rawType'') JNull) (\<lambda>raw_type.
       if raw_type = JStr (ustr ''duration'') then py_get i (ustr ''raw'') JNull
       else next_duration items)"

definition extract_duration_timestamp :: "json \<Rightarrow> py_error + pystr" where
  "extract_duration_timestamp json_data =
     err_bind (py_iter json_data) (\<lambda>items.
       case next_duration items of
         Inl e \<Rightarrow> if e = StopIteration then Inr [] else Inl e
       | Inr raw \<Rightarrow> get_duration_seconds raw)"

text \<open>
  \<open>try: x = ... except (AttributeError, LookupError, TypeError, ValueError): x = ""\<close>.
\<close>

definition or_empty :: "py_error + pystr \<Rightarrow> py_error + pystr" where
  "or_empty r = (case r of Inl e \<Rightarrow> if caught e then Inr [] else Inl e | Inr v \<Rightarrow> Inr v)"

text \<open>
  The media record \<open>kwdict(name=..., description=..., duration=..., image=...,
  api_data=kwdict(type=..., yle_id=...))\<close>. The description and the type are the decoded
  values as they came.
\<close>

record media_api =
  media_type :: json
  media_yle_id :: pystr

record media =
  media_name :: pystr
  media_description :: json
  media_duration :: pystr
  media_image :: pystr
  media_api_data :: media_api

text \<open>
  The body of the loop of \<open>get_category_content\<close> for one entry. \<open>split\<close> is a method of
  strings only; \<open>[-1]\<close> is the last field; \<open>get_package_path(locale) + _id\<close> adds a string to
  \<open>None\<close> for a locale other than \<open>fi\<close> and \<open>sv\<close> (\<open>TypeError\<close>). The prefix is
  \<open>title_prefix or ""\<close>.
\<close>

definition last_segment :: "json \<Rightarrow> py_error + pystr" where
  "last_segment uri =
     (case uri of
        JStr u \<Rightarrow> list_index (str_split u slash) (- 1)
      | _ \<Rightarrow> Inl AttributeError)"

definition category_entry ::
  "(json \<Rightarrow> pystr) \<Rightarrow> pystr \<Rightarrow> json \<Rightarrow> json \<Rightarrow> py_error + media" where
  "category_entry fmt locale title_prefix entry =
     err_bind (py_get entry (ustr ''title'') (JStr [])) (\<lambda>title.
     err_bind (err_bind (py_get entry (ustr ''pointer'') (JObj []))
                 (\<lambda>p. py_get p (ustr ''type'') (JStr []))) (\<lambda>ptype.
     err_bind (err_bind (err_bind (py_get entry (ustr ''pointer'') (JObj []))
                 (\<lambda>p. py_get p (ustr ''uri'') (JStr []))) last_segment) (\<lambda>ident.
     err_bind (py_get entry (ustr ''description'') (JStr [])) (\<lambda>description.
     err_bind (if ptype = JStr (ustr ''package'')
               then (case get_package_path locale of
                       None \<Rightarrow> Inl TypeError
                     | Some path \<Rightarrow> Inr (path @ ident))
               else Inr ident) (\<lambda>yle_id.
     err_bind (or_empty
                 (err_bind (err_bind (py_item entry (ustr ''image''))
                              (\<lambda>i. py_item i (ustr ''version''))) (\<lambda>version.
                  err_bind (err_bind (py_item entry (ustr ''image''))
                              (\<lambda>i. py_item i (ustr ''id''))) (\<lambda>ident'.
                    Inr (get_image_url fmt version ident'))))) (\<lambda>image.
     err_bind (or_empty
                 (err_bind (py_item entry (ustr ''labels'')) extract_duration_timestamp))
              (\<lambda>duration.
       Inr \<lparr>media_name = py_str fmt (if truthy title_prefix then title_prefix else JStr [])
                          @ ustr '' '' @ py_str fmt title,
            media_description = description,
            media_duration = duration,
            media_image = image,
            media_api_data = \<lparr>media_type = ptype, media_yle_id = yle_id\<rparr>\<rparr>)))))))"

fun category_entries ::
  "(json \<Rightarrow> pystr) \<Rightarrow> pystr \<Rightarrow> json \<Rightarrow> json list \<Rightarrow> py_error + media list" where
  "category_entries fmt locale title_prefix [] = Inr []"
| "category_entries fmt locale title_prefix (entry # entries) =
     err_bind (category_entry fmt locale title_prefix entry) (\<lambda>media_data.
     err_bind (category_entries fmt locale title_prefix entries) (\<lambda>content.
       Inr (media_data # content)))"

text \<open>
  \<open>get_category_content(site, locale, title_prefix=None)\<close> on the decoded body; the \<open>log\<close>
  call is left out.
\<close>

definition get_category_content ::
  "(json \<Rightarrow> pystr) \<Rightarrow> json \<Rightarrow> pystr \<Rightarrow> json \<Rightarrow> py_error + media list" where
  "get_category_content fmt site locale title_prefix =
     err_bind (py_item site (ustr ''data'')) (\<lambda>json_data.
     err_bind (py_iter json_data) (category_entries fmt locale title_prefix))"

section \<open>router.py: get_extended_content\<close>

definition create_api_query :: "pystr \<Rightarrow> int \<Rightarrow> int \<Rightarrow> pystr" where
  "create_api_query url limit offset =
     url @ ustr ''&limit='' @ str_int limit @ ustr ''&offset='' @ str_int offset"

text \<open>\<open>get_query_content(res, locale)\<close>: the parsed content and \<open>res.json()["meta"]["count"]\<close>.\<close>

definition get_query_content ::
  "(json \<Rightarrow> pystr) \<Rightarrow> json \<Rightarrow> pystr \<Rightarrow> py_error + media list \<times> json" where
  "get_query_content fmt res locale =
     err_bind (get_category_content fmt res locale JNull) (\<lambda>content.
     err_bind (err_bind (py_item res (ustr ''meta'')) (\<lambda>m. py_item m (ustr ''count'')))
       (\<lambda>count. Inr (content, count)))"

text \<open>
  The count as \<open>min(total, count) - requested\<close> uses it: an \<open>int\<close> (\<open>True\<close> and \<open>False\<close> are
  the ints 1 and 0); \<open>None\<close>, strings and containers do not compare with an \<open>int\<close>
  (\<open>TypeError\<close>). With a float count the source computes on in floats, which the model
  does not follow.
\<close>

fun count_value :: "json \<Rightarrow> py_error + int" where
  "count_value (JInt c) = Inr c"
| "count_value (JBool b) = Inr (if b then 1 else 0)"
| "count_value (JFloat f) = Inl NotModelled"
| "count_value _ = Inl TypeError"

text \<open>The three statements of the loop body that ask for one page.\<close>

definition fetch_page ::
  "transport \<Rightarrow> (json \<Rightarrow> pystr) \<Rightarrow> pystr \<Rightarrow> pystr \<Rightarrow> int \<Rightarrow> int
     \<Rightarrow> py_error + media list \<times> json" where
  "fetch_page net fmt base_url locale requested offset =
     err_bind (get_url_response net (create_api_query base_url requested offset) JNull)
       (\<lambda>res. get_query_content fmt res locale)"

text \<open>
  The \<open>while\<close> loop of \<open>get_extended_content\<close>, with the list \<open>ctx\<close> and, for the statements
  about the number of requests, the URLs asked so far. The total (\<open>n_total\<close>) falls by one at least in
  every round, whatever the server answers: the loop ends.
\<close>

function extended_loop ::
  "transport \<Rightarrow> (json \<Rightarrow> pystr) \<Rightarrow> pystr \<Rightarrow> pystr \<Rightarrow> int \<Rightarrow> int \<Rightarrow> media list \<Rightarrow> pystr list
     \<Rightarrow> pystr list \<times> (py_error + media list)" where
  "extended_loop net fmt base_url locale offset n_total ctx urls =
     (if 0 < n_total then
        (let requested = min n_total 100 in
         case fetch_page net fmt base_url locale requested offset of
           Inl e \<Rightarrow> (urls @ [create_api_query base_url requested offset], Inl e)
         | Inr (content, server_count) \<Rightarrow>
             (case count_value server_count of
                Inl e \<Rightarrow> (urls @ [create_api_query base_url requested offset], Inl e)
              | Inr c \<Rightarrow>
                  extended_loop net fmt base_url locale (offset + requested)
                    (min n_total c - requested) (ctx @ content)
                    (urls @ [create_api_query base_url requested offset])))
      else (urls, Inr ctx))"
  by pat_completeness auto
termination
  by (relation "measure (\<lambda>(net, fmt, base_url, locale, offset, n_total, ctx, urls). nat n_total)")
     auto

definition get_extended_content ::
  "transport \<Rightarrow> (json \<Rightarrow> pystr) \<Rightarrow> pystr \<Rightarrow> pystr \<Rightarrow> int \<Rightarrow> int
     \<Rightarrow> pystr list \<times> (py_error + media list)" where
  "get_extended_content net fmt base_url locale offset n_total =
     extended_loop net fmt base_url locale offset n_total [] []"

text \<open>
  Vocabulary for statements about the Catalog Parser. A field of an entry (\<open>None\<close> when
  the entry has no such key). An \<open>image\<close> field is malformed when it is missing or is not
  an object with both keys \<open>version\<close> and \<open>id\<close> (so also when it is \<open>null\<close> or of another
  type); a \<open>labels\<close> field is malformed when it is missing or is not a list. The rest of
  an entry is in order when the entry is an object whose \<open>pointer\<close>, if present, is an
  object whose \<open>uri\<close>, if present, is a string, and the locale is \<open>fi\<close> or \<open>sv\<close> when the
  pointer type is \<open>package\<close>.
\<close>

definition entry_field :: "json \<Rightarrow> pystr \<Rightarrow> json option" where
  "entry_field e key = (case e of JObj kvs \<Rightarrow> map_of kvs key | _ \<Rightarrow> None)"

definition image_malformed :: "json option \<Rightarrow> bool" where
  "image_malformed v =
     (case v of
        None \<Rightarrow> True
      | Some (JObj kvs) \<Rightarrow> map_of kvs (ustr ''version'') = None \<or> map_of kvs (ustr ''id'') = None
      | Some _ \<Rightarrow> True)"

definition labels_malformed :: "json option \<Rightarrow> bool" where
  "labels_malformed v =
     (case v of
        None \<Rightarrow> True
      | Some (JArr xs) \<Rightarrow> False
      | Some _ \<Rightarrow> True)"

definition pointer_ok :: "pystr \<Rightarrow> json \<Rightarrow> bool" where
  "pointer_ok locale e =
     (case e of
        JObj kvs \<Rightarrow>
          (case map_of kvs (ustr ''pointer'') of
             None \<Rightarrow> True
           | Some (JObj p) \<Rightarrow>
               (case map_of p (ustr ''uri'') of
                  None \<Rightarrow> True
                | Some (JStr u) \<Rightarrow> True
                | Some _ \<Rightarrow> False) \<and>
               (map_of p (ustr ''type'') = Some (JStr (ustr ''package''))
                  \<longrightarrow> locale \<in> {ustr ''fi'', ustr ''sv''})
           | Some _ \<Rightarrow> False)
      | _ \<Rightarrow> False)"

section \<open>Token Extractor\<close>

lemma str_find_absent: "\<not> sublist w s \<Longrightarrow> str_find s w = - 1"
  by (induction s) (auto simp: sublist_Cons_right Let_def)

lemma str_find_first:
  "\<not> sublist w (p @ butlast w) \<Longrightarrow> w \<noteq> [] \<Longrightarrow> str_find (p @ w @ r) w = int (length p)"
proof (induction p)
  case Nil
  then show ?case by (cases w) auto
next
  case (Cons c p)
  have np: "\<not> prefix w (c # p @ w @ r)"
  proof
    assume pw: "prefix w (c # p @ w @ r)"
    have "prefix ((c # p) @ butlast w) (c # p @ w @ r)"
      using Cons.prems(2) by (metis append_Cons append_butlast_last_id append_assoc prefixI)
    moreover have "length w \<le> length ((c # p) @ butlast w)"
      using Cons.prems(2) by (cases w) auto
    ultimately have "prefix w ((c # p) @ butlast w)"
      using pw prefix_length_prefix by blast
    then show False using Cons.prems(1) by auto
  qed
  have "\<not> sublist w (p @ butlast w)"
    using Cons.prems(1) by (simp add: sublist_Cons_right)
  then have "str_find (p @ w @ r) w = int (length p)"
    using Cons.IH Cons.prems(2) by blast
  then show ?case using np by simp
qed

lemma slice_from_nat: "slice_from s (int n) = drop n s"
  by (simp add: slice_from_def)

lemma extract_suffix_first:
  assumes "w \<noteq> []" and "\<not> sublist w (p @ butlast w)"
  shows "extract_suffix w (p @ w @ r) = r"
proof -
  have f: "str_find (p @ w @ r) w = int (length p)"
    using assms by (simp add: str_find_first)
  have "extract_suffix w (p @ w @ r) = slice_from (p @ w @ r) (int (length p + length w))"
    unfolding extract_suffix_def Let_def f by simp
  also have "\<dots> = drop (length p + length w) (p @ w @ r)"
    by (rule slice_from_nat)
  also have "\<dots> = r" by simp
  finally show ?thesis .
qed

lemma extract_suffix_absent:
  assumes "\<not> sublist w s"
  shows "extract_suffix w s = drop (length w - 1) s"
proof -
  have "w \<noteq> []" using assms by auto
  then have e: "- 1 + int (length w) = int (length w - 1)" by (cases w) auto
  have f: "str_find s w = - 1" using assms by (rule str_find_absent)
  have "extract_suffix w s = slice_from s (int (length w - 1))"
    unfolding extract_suffix_def Let_def f e ..
  then show ?thesis by (simp only: slice_from_nat)
qed

text \<open>
  C9. When the marker \<open>token=\<close> occurs in the URL, \<open>extract_token\<close> returns what follows
  its first occurrence, unchanged (the first occurrence: the marker does not occur in the
  text before it extended by the marker less its last character). When the marker does not
  occur, nothing is raised: \<open>find\<close> gives \<open>-1\<close>, and the result is the URL with its first
  \<open>len("token=") - 1\<close> characters removed (empty when the URL is that short).
\<close>

theorem extract_token_spec:
  "(url = p @ ustr ''token='' @ r \<and> \<not> sublist (ustr ''token='') (p @ ustr ''token'')
      \<longrightarrow> extract_token url = r) \<and>
   (\<not> sublist (ustr ''token='') url
      \<longrightarrow> extract_token url = drop (length ''token='' - 1) url)"
proof (intro conjI impI)
  assume a: "url = p @ ustr ''token='' @ r \<and> \<not> sublist (ustr ''token='') (p @ ustr ''token'')"
  have b: "butlast (ustr ''token='') = ustr ''token''" by (simp add: ustr_def)
  have c: "ustr ''token='' \<noteq> []" by (simp add: ustr_def)
  show "extract_token url = r"
    unfolding extract_token_def using a b c extract_suffix_first [of "ustr ''token=''" p r]
    by simp
next
  assume "\<not> sublist (ustr ''token='') url"
  then have "extract_token url = drop (length (ustr ''token='') - 1) url"
    unfolding extract_token_def by (rule extract_suffix_absent)
  then show "extract_token url = drop (length ''token='' - 1) url"
    by (simp add: ustr_def)
qed

theorem extract_token_spec_witness:
  "extract_token (ustr ''https://x/list?token=abc&token=def'') = ustr ''abc&token=def'' \<and>
   extract_token (ustr ''no marker'') = ustr ''rker''"
proof -
  have h1: "\<not> sublist (ustr ''token='') (ustr ''https://x/list?'' @ ustr ''token'')"
    by code_simp
  have h2: "ustr ''https://x/list?token=abc&token=def'' =
      ustr ''https://x/list?'' @ ustr ''token='' @ ustr ''abc&token=def''"
    by code_simp
  have h3: "\<not> sublist (ustr ''token='') (ustr ''no marker'')"
    by code_simp
  have h4: "drop (length ''token='' - 1) (ustr ''no marker'') = ustr ''rker''"
    by code_simp
  have "extract_token (ustr ''https://x/list?token=abc&token=def'') = ustr ''abc&token=def''"
    using extract_token_spec [of "ustr ''https://x/list?token=abc&token=def''"
        "ustr ''https://x/list?''" "ustr ''abc&token=def''"] h1 h2
    by blast
  moreover have "extract_token (ustr ''no marker'') = ustr ''rker''"
    using extract_token_spec [of "ustr ''no marker''" "[]" "[]"] h3 h4 by simp
  ultimately show ?thesis by simp
qed

section \<open>Provider id routing (get_kaltura_id_or_none)\<close>

lemma str_split_no_sep: "sep \<notin> set s \<Longrightarrow> str_split s sep = [s]"
  by (induction s) auto

lemma str_split_first: "sep \<notin> set p \<Longrightarrow> str_split (p @ sep # r) sep = p # str_split r sep"
  by (induction p) auto

lemma str_split_Cons: "str_split s sep = takeWhile (\<lambda>c. c \<noteq> sep) s # tl (str_split s sep)"
  by (induction s) (auto split: list.splits)

lemma takeWhile_first: "sep \<notin> set p \<Longrightarrow> takeWhile (\<lambda>c. c \<noteq> sep) (p @ sep # r) = p"
  by (induction p) auto

lemma list_index_0: "list_index (x # xs) 0 = Inr x"
  by (simp add: list_index_def)

lemma list_index_1: "list_index (x # y # xs) 1 = Inr y"
  by (simp add: list_index_def)

lemma dash_not_in_digits:
  "dash \<notin> set (ustr ''29'')" "dash \<notin> set (ustr ''55'')" "dash \<notin> set (ustr ''67'')"
  by (simp_all add: dash_def ustr_def)

lemma kaltura_id_str:
  "s \<noteq> [] \<Longrightarrow> get_kaltura_id_or_none (JStr s) =
     (let media_info = str_split s dash; media_host = takeWhile (\<lambda>c. c \<noteq> dash) s in
        if media_host = ustr ''29'' then ([], list_index media_info 1)
        else if media_host = ustr ''55'' \<or> media_host = ustr ''67'' then ([], Inr [])
        else ([ustr ''Unknown stream media type: '' @ s], Inl UnboundLocalError))"
  unfolding get_kaltura_id_or_none_def Let_def
  by (subst (1 2 3) str_split_Cons) (simp add: list_index_0)

lemma kaltura_id_29:
  "get_kaltura_id_or_none (JStr (ustr ''29'' @ dash # r)) =
     ([], Inr (takeWhile (\<lambda>c. c \<noteq> dash) r))"
proof -
  have ne: "ustr ''29'' @ dash # r \<noteq> []" by simp
  have tw: "takeWhile (\<lambda>c. c \<noteq> dash) (ustr ''29'' @ dash # r) = ustr ''29''"
    using dash_not_in_digits(1) by (rule takeWhile_first)
  have sp: "str_split (ustr ''29'' @ dash # r) dash = ustr ''29'' # str_split r dash"
    using dash_not_in_digits(1) by (rule str_split_first)
  have "list_index (ustr ''29'' # str_split r dash) 1 = Inr (takeWhile (\<lambda>c. c \<noteq> dash) r)"
    by (subst str_split_Cons) (simp add: list_index_1)
  then show ?thesis
    unfolding kaltura_id_str [OF ne] Let_def tw sp by simp
qed

text \<open>
C1 (as amended). \<open>get_kaltura_id_or_none\<close> on a media identifier string. With the
  prefix \<open>29\<close> before the first \<open>-\<close>, the result is the second field of the split: the
  text between the first \<open>-\<close> and the next one, which is the whole remainder when the
  remainder has no \<open>-\<close> (\<open>29-xyz\<close> gives \<open>xyz\<close>); the bare identifier \<open>29\<close> raises
  \<open>IndexError\<close>. With the prefix \<open>55\<close> or \<open>67\<close> the result is the empty string. Every other
  prefix of a non-empty identifier hands \<open>Unknown stream media type: <id>\<close> to \<open>log\<close> and
  raises (the unassigned \<open>media_id\<close>), returning nothing. The empty identifier gives the
  empty string, without a log entry or an exception.
\<close>

theorem kaltura_id_routing:
  "(dash \<notin> set r \<longrightarrow> get_kaltura_id_or_none (JStr (ustr ''29'' @ dash # r)) = ([], Inr r)) \<and>
   get_kaltura_id_or_none (JStr (ustr ''29'' @ dash # r)) =
     ([], Inr (takeWhile (\<lambda>c. c \<noteq> dash) r)) \<and>
   get_kaltura_id_or_none (JStr (ustr ''29'')) = ([], Inl IndexError) \<and>
   (s \<noteq> [] \<and> takeWhile (\<lambda>c. c \<noteq> dash) s \<in> {ustr ''55'', ustr ''67''}
      \<longrightarrow> get_kaltura_id_or_none (JStr s) = ([], Inr [])) \<and>
   (s \<noteq> [] \<and> takeWhile (\<lambda>c. c \<noteq> dash) s \<notin> {ustr ''29'', ustr ''55'', ustr ''67''}
      \<longrightarrow> get_kaltura_id_or_none (JStr s) =
           ([ustr ''Unknown stream media type: '' @ s], Inl UnboundLocalError)) \<and>
   get_kaltura_id_or_none (JStr []) = ([], Inr [])"
proof (intro conjI impI)
  show "get_kaltura_id_or_none (JStr (ustr ''29'' @ dash # r)) =
      ([], Inr (takeWhile (\<lambda>c. c \<noteq> dash) r))"
    by (rule kaltura_id_29)
  show "get_kaltura_id_or_none (JStr (ustr ''29'' @ dash # r)) = ([], Inr r)"
    if "dash \<notin> set r"
    using that by (auto simp add: kaltura_id_29)
  show "get_kaltura_id_or_none (JStr (ustr ''29'')) = ([], Inl IndexError)"
    by code_simp
  show "get_kaltura_id_or_none (JStr []) = ([], Inr [])"
    by (simp add: get_kaltura_id_or_none_def)
  have d: "ustr ''55'' \<noteq> ustr ''29''" "ustr ''67'' \<noteq> ustr ''29''"
    by (simp_all add: ustr_def)
  show "get_kaltura_id_or_none (JStr s) = ([], Inr [])"
    if "s \<noteq> [] \<and> takeWhile (\<lambda>c. c \<noteq> dash) s \<in> {ustr ''55'', ustr ''67''}"
    using that d by (auto simp add: kaltura_id_str)
  show "get_kaltura_id_or_none (JStr s) =
      ([ustr ''Unknown stream media type: '' @ s], Inl UnboundLocalError)"
    if "s \<noteq> [] \<and> takeWhile (\<lambda>c. c \<noteq> dash) s \<notin> {ustr ''29'', ustr ''55'', ustr ''67''}"
    using that by (simp add: kaltura_id_str)
qed

theorem kaltura_id_routing_witness:
  "get_kaltura_id_or_none (JStr (ustr ''29-xyz'')) = ([], Inr (ustr ''xyz'')) \<and>
   get_kaltura_id_or_none (JStr (ustr ''55-1_ab'')) = ([], Inr []) \<and>
   get_kaltura_id_or_none (JStr (ustr ''13-1_ab'')) =
     ([ustr ''Unknown stream media type: 13-1_ab''], Inl UnboundLocalError)"
proof -
  have h1: "dash \<notin> set (ustr ''xyz'')" by code_simp
  have h2: "ustr ''29-xyz'' = ustr ''29'' @ dash # ustr ''xyz''" by code_simp
  have h3: "ustr ''55-1_ab'' \<noteq> [] \<and>
      takeWhile (\<lambda>c. c \<noteq> dash) (ustr ''55-1_ab'') \<in> {ustr ''55'', ustr ''67''}"
    by code_simp
  have h4: "ustr ''13-1_ab'' \<noteq> [] \<and>
      takeWhile (\<lambda>c. c \<noteq> dash) (ustr ''13-1_ab'') \<notin> {ustr ''29'', ustr ''55'', ustr ''67''}"
    by code_simp
  have h5: "ustr ''Unknown stream media type: '' @ ustr ''13-1_ab'' =
      ustr ''Unknown stream media type: 13-1_ab''"
    by code_simp
  have "get_kaltura_id_or_none (JStr (ustr ''29-xyz'')) = ([], Inr (ustr ''xyz''))"
    using kaltura_id_routing [of "ustr ''xyz''" "[]"] h1 unfolding h2 by blast
  moreover have "get_kaltura_id_or_none (JStr (ustr ''55-1_ab'')) = ([], Inr [])"
    using kaltura_id_routing [of "[]" "ustr ''55-1_ab''"] h3 by blast
  moreover have "get_kaltura_id_or_none (JStr (ustr ''13-1_ab'')) =
      ([ustr ''Unknown stream media type: 13-1_ab''], Inl UnboundLocalError)"
    using kaltura_id_routing [of "[]" "ustr ''13-1_ab''"] h4 unfolding h5 [symmetric] by blast
  ultimately show ?thesis by blast
qed

text \<open>
C1 as stated fails: for \<open>29-a-b\<close> the result is \<open>a\<close>, not the remainder \<open>a-b\<close> after the
  first \<open>-\<close>; and the empty identifier, whose prefix is none of \<open>29\<close>, \<open>55\<close>, \<open>67\<close>, returns
  the empty string instead of raising.
\<close>

theorem kaltura_id_remainder_counterexample:
  "get_kaltura_id_or_none (JStr (ustr ''29-a-b'')) = ([], Inr (ustr ''a'')) \<and>
   get_kaltura_id_or_none (JStr (ustr ''29-a-b'')) \<noteq> ([], Inr (ustr ''a-b'')) \<and>
   get_kaltura_id_or_none (JStr []) = ([], Inr [])"
  by code_simp

section \<open>Primary provider resolver (get_stream_manifest)\<close>

lemma kaltura_id_null: "get_kaltura_id_or_none JNull = ([], Inr [])"
  by (simp add: get_kaltura_id_or_none_def)

text \<open>
C10. On a preview response whose \<open>data\<close> object has each of \<open>ongoing_ondemand\<close> and
  \<open>ongoing_event\<close> either absent or the empty object, \<open>get_stream_manifest\<close> raises nothing
  and logs nothing: it returns \<open>None\<close> as the manifest URL together with the empty string
  as the secondary id, the value \<open>get_kaltura_id_or_none\<close> gives for a missing media
  identifier. When \<open>ongoing_ondemand\<close> is present and non-empty it is the shape used:
  the result is the one for the response that holds that shape alone, whatever
  \<open>ongoing_event\<close> holds.
\<close>

theorem get_stream_manifest_shapes:
  assumes "map_of site (ustr ''data'') = Some (JObj d)"
  shows "(map_of d (ustr ''ongoing_ondemand'') \<in> {None, Some (JObj [])} \<and>
          map_of d (ustr ''ongoing_event'') \<in> {None, Some (JObj [])}
            \<longrightarrow> get_stream_manifest (JObj site) = ([], Inr (JNull, []))) \<and>
         (map_of d (ustr ''ongoing_ondemand'') = Some v \<and> truthy v
            \<longrightarrow> get_stream_manifest (JObj site) =
                 get_stream_manifest
                   (JObj [(ustr ''data'', JObj [(ustr ''ongoing_ondemand'', v)])]))"
proof (intro conjI impI)
  assume a: "map_of d (ustr ''ongoing_ondemand'') \<in> {None, Some (JObj [])} \<and>
          map_of d (ustr ''ongoing_event'') \<in> {None, Some (JObj [])}"
  then show "get_stream_manifest (JObj site) = ([], Inr (JNull, []))"
    using assms by (auto simp add: get_stream_manifest_def kaltura_id_null)
next
  assume "map_of d (ustr ''ongoing_ondemand'') = Some v \<and> truthy v"
  then show "get_stream_manifest (JObj site) =
      get_stream_manifest (JObj [(ustr ''data'', JObj [(ustr ''ongoing_ondemand'', v)])])"
    using assms by (simp add: get_stream_manifest_def)
qed

theorem get_stream_manifest_shapes_witness:
  "get_stream_manifest (JObj [(ustr ''data'', JObj [(ustr ''ongoing_event'', JObj [])])]) =
     ([], Inr (JNull, [])) \<and>
   get_stream_manifest (JObj [(ustr ''data'', JObj
      [(ustr ''ongoing_event'', JObj [(ustr ''manifest_url'', JStr (ustr ''e.m3u8''))]),
       (ustr ''ongoing_ondemand'', JObj [(ustr ''manifest_url'', JStr (ustr ''o.m3u8'')),
                                         (ustr ''media_id'', JStr (ustr ''29-1_ab''))])])]) =
     ([], Inr (JStr (ustr ''o.m3u8''), ustr ''1_ab''))"
proof -
  let ?d1 = "[(ustr ''ongoing_event'', JObj [])]"
  let ?v = "JObj [(ustr ''manifest_url'', JStr (ustr ''o.m3u8'')),
                  (ustr ''media_id'', JStr (ustr ''29-1_ab''))]"
  let ?d2 = "[(ustr ''ongoing_event'', JObj [(ustr ''manifest_url'', JStr (ustr ''e.m3u8''))]),
              (ustr ''ongoing_ondemand'', ?v)]"
  have s1: "map_of [(ustr ''data'', JObj ?d1)] (ustr ''data'') = Some (JObj ?d1)" by simp
  have s2: "map_of [(ustr ''data'', JObj ?d2)] (ustr ''data'') = Some (JObj ?d2)" by simp
  have h1: "map_of ?d1 (ustr ''ongoing_ondemand'') \<in> {None, Some (JObj [])} \<and>
            map_of ?d1 (ustr ''ongoing_event'') \<in> {None, Some (JObj [])}"
    by code_simp
  have h2: "map_of ?d2 (ustr ''ongoing_ondemand'') = Some ?v \<and> truthy ?v"
    by code_simp
  have h3: "get_stream_manifest (JObj [(ustr ''data'', JObj [(ustr ''ongoing_ondemand'', ?v)])]) =
      ([], Inr (JStr (ustr ''o.m3u8''), ustr ''1_ab''))"
    by code_simp
  have "get_stream_manifest (JObj [(ustr ''data'', JObj ?d1)]) = ([], Inr (JNull, []))"
    using get_stream_manifest_shapes [OF s1] h1 by blast
  moreover have "get_stream_manifest (JObj [(ustr ''data'', JObj ?d2)]) =
      ([], Inr (JStr (ustr ''o.m3u8''), ustr ''1_ab''))"
    using get_stream_manifest_shapes [OF s2, of ?v] h2 h3 by simp
  ultimately show ?thesis by blast
qed

lemma get_stream_manifest_null_event:
  "get_stream_manifest (JObj [(ustr ''data'', JObj [(ustr ''ongoing_event'', JNull)])]) =
     ([], Inl AttributeError)"
  by code_simp

section \<open>Secondary provider resolver: source selection\<close>

lemma py_get_dict: "is_dict s \<Longrightarrow> py_get s key JNull = Inr (source_field s key)"
  by (cases s) (auto simp: is_dict_def source_field_def)

lemma next_source_first:
  assumes "\<forall>x\<in>set pre. is_dict x \<and> \<not> py_eq_int (source_field x (ustr ''deliveryProfileId'')) k"
    and "is_dict s" and "py_eq_int (source_field s (ustr ''deliveryProfileId'')) k"
  shows "next_source (pre @ s # post) (Some k) = Inr (source_field s (ustr ''url''))"
  using assms by (induction pre) (simp_all add: py_get_dict)

lemma next_source_none:
  assumes "\<forall>x\<in>set srcs. is_dict x \<and> \<not> py_eq_int (source_field x (ustr ''deliveryProfileId'')) k"
  shows "next_source srcs (Some k) = Inl StopIteration"
  using assms by (induction srcs) (simp_all add: py_get_dict)

lemma sources_of_site:
  assumes "site = JArr (r0 # JObj kvs # tail)" and "map_of kvs (ustr ''sources'') = Some (JArr srcs)"
  shows "get_hd_mpd_stream_manifest site mode =
     err_bind (next_source srcs (target_stream mode)) (\<lambda>manifest.
       if mode = ustr ''download'' then
         (case manifest of
            JStr m \<Rightarrow> Inr (JStr (re_sub_flavors m))
          | _ \<Rightarrow> Inl TypeError)
       else Inr manifest)"
  using assms by (simp add: get_hd_mpd_stream_manifest_def list_index_def)

lemma mode_names_distinct:
  "ustr ''live'' \<noteq> ustr ''download''" "ustr ''vod'' \<noteq> ustr ''download''"
  "ustr ''vod'' \<noteq> ustr ''live''"
  by (simp_all add: ustr_def)

lemma target_stream_modes:
  "target_stream (ustr ''live'') = Some 16231"
  "target_stream (ustr ''download'') = Some 14441"
  "target_stream (ustr ''vod'') = Some 14471"
  using mode_names_distinct by (simp_all add: target_stream_def)

text \<open>
C2. On a secondary-provider response whose second element carries a \<open>sources\<close> list of
  objects, and for each of the modes \<open>live\<close>, \<open>download\<close> and \<open>vod\<close> (whose target ids
  16231, 14441 and 14471 are three different constants), \<open>get_hd_mpd_stream_manifest\<close>
  takes the first source of the list whose \<open>deliveryProfileId\<close> equals the target of the
  mode: the result is the \<open>url\<close> of that source (in download mode with the flavor
  tokens stripped), whatever follows it in the list. When no source has the target id,
  the call raises (\<open>StopIteration\<close> out of \<open>next\<close>) and returns no other source.
\<close>

theorem source_selection:
  assumes "site = JArr (r0 # JObj kvs # tail)"
    and "map_of kvs (ustr ''sources'') = Some (JArr srcs)"
    and "\<forall>x\<in>set srcs. is_dict x"
    and "target_stream mode = Some k"
  shows "target_stream (ustr ''live'') = Some 16231 \<and>
      target_stream (ustr ''download'') = Some 14441 \<and>
      target_stream (ustr ''vod'') = Some 14471 \<and>
      (\<forall>pre s post.
          srcs = pre @ s # post \<and>
          (\<forall>x\<in>set pre. \<not> py_eq_int (source_field x (ustr ''deliveryProfileId'')) k) \<and>
          py_eq_int (source_field s (ustr ''deliveryProfileId'')) k
          \<longrightarrow> get_hd_mpd_stream_manifest site mode =
               (if mode = ustr ''download'' then
                  (case source_field s (ustr ''url'') of
                     JStr m \<Rightarrow> Inr (JStr (re_sub_flavors m))
                   | _ \<Rightarrow> Inl TypeError)
                else Inr (source_field s (ustr ''url'')))) \<and>
      ((\<forall>x\<in>set srcs. \<not> py_eq_int (source_field x (ustr ''deliveryProfileId'')) k)
          \<longrightarrow> get_hd_mpd_stream_manifest site mode = Inl StopIteration)"
proof -
  note k = assms(4)
  have sel: "get_hd_mpd_stream_manifest site mode =
               (if mode = ustr ''download'' then
                  (case source_field s (ustr ''url'') of
                     JStr m \<Rightarrow> Inr (JStr (re_sub_flavors m))
                   | _ \<Rightarrow> Inl TypeError)
                else Inr (source_field s (ustr ''url'')))"
    if a: "srcs = pre @ s # post"
      "\<forall>x\<in>set pre. \<not> py_eq_int (source_field x (ustr ''deliveryProfileId'')) k"
      "py_eq_int (source_field s (ustr ''deliveryProfileId'')) k"
    for pre s post
  proof -
    have "next_source (pre @ s # post) (Some k) = Inr (source_field s (ustr ''url''))"
      using a assms(3) by (intro next_source_first) auto
    then show ?thesis
      unfolding sources_of_site [OF assms(1,2)] k a(1) by simp
  qed
  have none: "get_hd_mpd_stream_manifest site mode = Inl StopIteration"
    if a: "\<forall>x\<in>set srcs. \<not> py_eq_int (source_field x (ustr ''deliveryProfileId'')) k"
  proof -
    have "next_source srcs (Some k) = Inl StopIteration"
      using a assms(3) by (intro next_source_none) auto
    then show ?thesis
      unfolding sources_of_site [OF assms(1,2)] k by simp
  qed
  show ?thesis using target_stream_modes sel none by blast
qed

theorem source_selection_witness:
  "get_hd_mpd_stream_manifest
     (JArr [JNull, JObj [(ustr ''sources'', JArr
        [JObj [(ustr ''deliveryProfileId'', JInt 14441), (ustr ''url'', JStr (ustr ''a''))],
         JObj [(ustr ''deliveryProfileId'', JInt 14471), (ustr ''url'', JStr (ustr ''b''))],
         JObj [(ustr ''deliveryProfileId'', JInt 14471), (ustr ''url'', JStr (ustr ''c''))]])]])
     (ustr ''vod'') = Inr (JStr (ustr ''b'')) \<and>
   get_hd_mpd_stream_manifest
     (JArr [JNull, JObj [(ustr ''sources'', JArr
        [JObj [(ustr ''deliveryProfileId'', JInt 14441), (ustr ''url'', JStr (ustr ''a''))],
         JObj [(ustr ''deliveryProfileId'', JInt 14471), (ustr ''url'', JStr (ustr ''b''))],
         JObj [(ustr ''deliveryProfileId'', JInt 14471), (ustr ''url'', JStr (ustr ''c''))]])]])
     (ustr ''live'') = Inl StopIteration"
proof -
  let ?A = "JObj [(ustr ''deliveryProfileId'', JInt 14441), (ustr ''url'', JStr (ustr ''a''))]"
  let ?B = "JObj [(ustr ''deliveryProfileId'', JInt 14471), (ustr ''url'', JStr (ustr ''b''))]"
  let ?C = "JObj [(ustr ''deliveryProfileId'', JInt 14471), (ustr ''url'', JStr (ustr ''c''))]"
  let ?kvs = "[(ustr ''sources'', JArr [?A, ?B, ?C])]"
  let ?site = "JArr [JNull, JObj ?kvs]"
  let ?dp = "ustr ''deliveryProfileId''"
  have h1: "?site = JArr (JNull # JObj ?kvs # [])" by simp
  have h2: "map_of ?kvs (ustr ''sources'') = Some (JArr [?A, ?B, ?C])" by simp
  have h3: "\<forall>x\<in>set [?A, ?B, ?C]. is_dict x" by (simp add: is_dict_def)
  have v: "target_stream (ustr ''vod'') = Some 14471" by (rule target_stream_modes)
  have l: "target_stream (ustr ''live'') = Some 16231" by (rule target_stream_modes)
  have f: "source_field ?A ?dp = JInt 14441" "source_field ?B ?dp = JInt 14471"
    "source_field ?C ?dp = JInt 14471" "source_field ?B (ustr ''url'') = JStr (ustr ''b'')"
    by code_simp+
  have h4: "[?A, ?B, ?C] = [?A] @ ?B # [?C] \<and>
      (\<forall>x\<in>set [?A]. \<not> py_eq_int (source_field x ?dp) 14471) \<and>
      py_eq_int (source_field ?B ?dp) 14471"
    unfolding f by (simp add: f)
  have h5: "\<forall>x\<in>set [?A, ?B, ?C]. \<not> py_eq_int (source_field x ?dp) 16231"
    by (simp add: f)
  have h6: "ustr ''vod'' \<noteq> ustr ''download''" by (rule mode_names_distinct)
  have "get_hd_mpd_stream_manifest ?site (ustr ''vod'') = Inr (JStr (ustr ''b''))"
    using source_selection [OF h1 h2 h3 v] h4 h6 f(4) by (metis (no_types, lifting))
  moreover have "get_hd_mpd_stream_manifest ?site (ustr ''live'') = Inl StopIteration"
    using source_selection [OF h1 h2 h3 l] h5 by blast
  ultimately show ?thesis by blast
qed

section \<open>Secondary provider resolver: download mode\<close>





lemma re_sub_keeps_non_digit: "\<not> is_digit c \<Longrightarrow> re_sub_flavors (c # s) = c # re_sub_flavors s"
  by simp













section \<open>Stream resolution orchestrator (get_vod_stream_manifest)\<close>

lemma format_names_distinct: "ustr ''mpd'' \<noteq> ustr ''hls''"
  by (simp add: ustr_def)

text \<open>
C4. \<open>get_vod_stream_manifest\<close>: when the caller supplies a non-empty secondary id, the
  secondary resolver is called with that id and the mode, and the result is its manifest
  and subtitles with the format \<open>mpd\<close> (the primary resolver is not asked). When none is
  supplied and the primary resolver returns a non-empty id, the secondary resolver is
  called with the returned id and the mode, and its manifest with \<open>mpd\<close> replaces the
  primary manifest. When none is supplied and the primary resolver returns the empty id,
  the result is the primary manifest with the format \<open>hls\<close> and no subtitles. Conversely a
  result with the format \<open>hls\<close> arises in that last case only. An exception of a resolver
  that is called is the outcome of the call.
\<close>

theorem vod_secondary_supersedes:
  "(kaltura_id \<noteq> [] \<longrightarrow>
      get_vod_stream_manifest net fmt yle_id kaltura_id mode =
        ([], map_sum id (\<lambda>(manifest, subs). (manifest, ustr ''mpd'', subs))
               (get_mpd_stream_manifest net fmt kaltura_id mode))) \<and>
   (get_hls_stream_manifest net yle_id = (logged, Inr (hls_manifest, returned_id)) \<and>
    returned_id \<noteq> [] \<longrightarrow>
      get_vod_stream_manifest net fmt yle_id [] mode =
        (logged, map_sum id (\<lambda>(manifest, subs). (manifest, ustr ''mpd'', subs))
                   (get_mpd_stream_manifest net fmt returned_id mode))) \<and>
   (get_hls_stream_manifest net yle_id = (logged, Inr (hls_manifest, [])) \<longrightarrow>
      get_vod_stream_manifest net fmt yle_id [] mode =
        (logged, Inr (hls_manifest, ustr ''hls'', Some []))) \<and>
   (get_vod_stream_manifest net fmt yle_id kaltura_id mode =
        (logged, Inr (manifest, ustr ''hls'', subs)) \<longrightarrow>
      kaltura_id = [] \<and> get_hls_stream_manifest net yle_id = (logged, Inr (manifest, [])))"
proof (intro conjI impI)
  assume "kaltura_id \<noteq> []"
  then show "get_vod_stream_manifest net fmt yle_id kaltura_id mode =
        ([], map_sum id (\<lambda>(manifest, subs). (manifest, ustr ''mpd'', subs))
               (get_mpd_stream_manifest net fmt kaltura_id mode))"
    by (simp add: get_vod_stream_manifest_def)
next
  assume "get_hls_stream_manifest net yle_id = (logged, Inr (hls_manifest, returned_id)) \<and>
    returned_id \<noteq> []"
  then show "get_vod_stream_manifest net fmt yle_id [] mode =
        (logged, map_sum id (\<lambda>(manifest, subs). (manifest, ustr ''mpd'', subs))
                   (get_mpd_stream_manifest net fmt returned_id mode))"
    by (simp add: get_vod_stream_manifest_def)
next
  assume "get_hls_stream_manifest net yle_id = (logged, Inr (hls_manifest, []))"
  then show "get_vod_stream_manifest net fmt yle_id [] mode =
        (logged, Inr (hls_manifest, ustr ''hls'', Some []))"
    by (simp add: get_vod_stream_manifest_def)
next
  assume a: "get_vod_stream_manifest net fmt yle_id kaltura_id mode =
        (logged, Inr (manifest, ustr ''hls'', subs))"
  show "kaltura_id = []"
  proof (rule ccontr)
    assume "kaltura_id \<noteq> []"
    then show False
      using a format_names_distinct
      by (cases "get_mpd_stream_manifest net fmt kaltura_id mode")
         (auto simp add: get_vod_stream_manifest_def)
  qed
  then show "get_hls_stream_manifest net yle_id = (logged, Inr (manifest, []))"
    using a format_names_distinct
    by (cases "get_hls_stream_manifest net yle_id" rule: prod.exhaust)
       (auto simp add: get_vod_stream_manifest_def map_sum_def
             split: sum.splits if_splits prod.splits)
qed

theorem vod_secondary_supersedes_witness:
  "get_vod_stream_manifest
     \<lparr> http_get = (\<lambda>url. Inr (JObj [(ustr ''data'', JObj [(ustr ''ongoing_ondemand'',
          JObj [(ustr ''manifest_url'', JStr (ustr ''o.m3u8'')),
                (ustr ''media_id'', JStr (ustr ''29-1_ab''))])])])),
       http_post = (\<lambda>url body. Inr (JArr [JNull, JObj [(ustr ''sources'', JArr
          [JObj [(ustr ''deliveryProfileId'', JInt 14471),
                 (ustr ''url'', JStr (ustr ''v.mpd''))]])]])) \<rparr>
     (\<lambda>x. []) (ustr ''1-123'') (ustr ''1_zz'') (ustr ''vod'') =
       ([], Inr (JStr (ustr ''v.mpd''), ustr ''mpd'', None)) \<and>
   get_vod_stream_manifest
     \<lparr> http_get = (\<lambda>url. Inr (JObj [(ustr ''data'', JObj [(ustr ''ongoing_ondemand'',
          JObj [(ustr ''manifest_url'', JStr (ustr ''o.m3u8'')),
                (ustr ''media_id'', JStr (ustr ''29-1_ab''))])])])),
       http_post = (\<lambda>url body. Inr (JArr [JNull, JObj [(ustr ''sources'', JArr
          [JObj [(ustr ''deliveryProfileId'', JInt 14471),
                 (ustr ''url'', JStr (ustr ''v.mpd''))]])]])) \<rparr>
     (\<lambda>x. []) (ustr ''1-123'') [] (ustr ''vod'') =
       ([], Inr (JStr (ustr ''v.mpd''), ustr ''mpd'', None)) \<and>
   get_vod_stream_manifest
     \<lparr> http_get = (\<lambda>url. Inr (JObj [(ustr ''data'', JObj [(ustr ''ongoing_ondemand'',
          JObj [(ustr ''manifest_url'', JStr (ustr ''o.m3u8'')),
                (ustr ''media_id'', JStr (ustr ''55-1_ab''))])])])),
       http_post = (\<lambda>url body. Inl RequestError) \<rparr>
     (\<lambda>x. []) (ustr ''1-123'') [] (ustr ''vod'') =
       ([], Inr (JStr (ustr ''o.m3u8''), ustr ''hls'', Some []))"
proof -
  let ?post = "\<lambda>(url :: pystr) (body :: json). (Inr (JArr [JNull, JObj [(ustr ''sources'', JArr
          [JObj [(ustr ''deliveryProfileId'', JInt 14471),
                 (ustr ''url'', JStr (ustr ''v.mpd''))]])]]) :: py_error + json)"
  let ?n1 = "\<lparr> http_get = (\<lambda>url. Inr (JObj [(ustr ''data'', JObj [(ustr ''ongoing_ondemand'',
          JObj [(ustr ''manifest_url'', JStr (ustr ''o.m3u8'')),
                (ustr ''media_id'', JStr (ustr ''29-1_ab''))])])])),
       http_post = ?post \<rparr>"
  let ?n2 = "\<lparr> http_get = (\<lambda>url. Inr (JObj [(ustr ''data'', JObj [(ustr ''ongoing_ondemand'',
          JObj [(ustr ''manifest_url'', JStr (ustr ''o.m3u8'')),
                (ustr ''media_id'', JStr (ustr ''55-1_ab''))])])])),
       http_post = (\<lambda>url body. Inl RequestError) \<rparr>"
  let ?fmt = "\<lambda>x :: json. [] :: pystr"
  have m1: "get_mpd_stream_manifest ?n1 ?fmt (ustr ''1_zz'') (ustr ''vod'') =
      Inr (JStr (ustr ''v.mpd''), None)"
    by code_simp
  have m2: "get_mpd_stream_manifest ?n1 ?fmt (ustr ''1_ab'') (ustr ''vod'') =
      Inr (JStr (ustr ''v.mpd''), None)"
    by code_simp
  have g1: "get_hls_stream_manifest ?n1 (ustr ''1-123'') =
      ([], Inr (JStr (ustr ''o.m3u8''), ustr ''1_ab'')) \<and> ustr ''1_ab'' \<noteq> []"
    by code_simp
  have g2: "get_hls_stream_manifest ?n2 (ustr ''1-123'') = ([], Inr (JStr (ustr ''o.m3u8''), []))"
    by code_simp
  have z: "ustr ''1_zz'' \<noteq> []" by (simp add: ustr_def)
  have "get_vod_stream_manifest ?n1 ?fmt (ustr ''1-123'') (ustr ''1_zz'') (ustr ''vod'') =
      ([], Inr (JStr (ustr ''v.mpd''), ustr ''mpd'', None))"
    using vod_secondary_supersedes [of "ustr ''1_zz''" ?n1 ?fmt "ustr ''1-123''" "ustr ''vod''"] z
    by (simp add: m1)
  moreover have "get_vod_stream_manifest ?n1 ?fmt (ustr ''1-123'') [] (ustr ''vod'') =
      ([], Inr (JStr (ustr ''v.mpd''), ustr ''mpd'', None))"
    using vod_secondary_supersedes [of "[]" ?n1 ?fmt "ustr ''1-123''" "ustr ''vod''" "[]"
        "JStr (ustr ''o.m3u8'')" "ustr ''1_ab''"] g1
    by (simp add: m2)
  moreover have "get_vod_stream_manifest ?n2 ?fmt (ustr ''1-123'') [] (ustr ''vod'') =
      ([], Inr (JStr (ustr ''o.m3u8''), ustr ''hls'', Some []))"
    using vod_secondary_supersedes [of "[]" ?n2 ?fmt "ustr ''1-123''" "ustr ''vod''" "[]"
        "JStr (ustr ''o.m3u8'')"] g2
    by simp
  ultimately show ?thesis by blast
qed

section \<open>Alphabetical sequencer (sort_alphabetical_categories)\<close>

lemma index_of_present: "x \<in> set xs \<Longrightarrow> index_of xs x = Inr (length (takeWhile (\<lambda>a. a \<noteq> x) xs))"
  by (induction xs) auto

lemma index_of_absent: "x \<notin> set xs \<Longrightarrow> index_of xs x = Inl ValueError"
  by (induction xs) auto

lemma index_of_error: "index_of xs x = Inl e \<Longrightarrow> e = ValueError"
  by (induction xs) (auto split: if_splits sum.splits simp: map_sum_def)

lemma sort_keys_present:
  "\<forall>b\<in>set cats. bucket_name b \<in> set alphabet \<Longrightarrow>
   sort_keys cats = Inr (map (\<lambda>b. (alphabet_pos (bucket_name b), b)) cats)"
  by (induction cats) (simp_all add: index_of_present alphabet_pos_def)

lemma insort_key_fst_pair:
  "map snd (insort_key fst (f x, x) (map (\<lambda>b. (f b, b)) ys)) = insort_key f x (map snd (map (\<lambda>b. (f b, b)) ys))"
  by (induction ys) simp_all

lemma sort_key_pairs_aux:
  "sort_key fst (map (\<lambda>b. (f b, b)) xs) = map (\<lambda>b. (f b, b)) (sort_key f xs)"
proof (induction xs)
  case Nil
  then show ?case by simp
next
  case (Cons x xs)
  have "insort_key fst (f x, x) (map (\<lambda>b. (f b, b)) ys) = map (\<lambda>b. (f b, b)) (insort_key f x ys)" for ys
    by (induction ys) simp_all
  then show ?case using Cons by simp
qed

lemma sort_key_pairs: "map snd (sort_key fst (map (\<lambda>b. (f b, b)) xs)) = sort_key f xs"
  by (simp add: sort_key_pairs_aux comp_def)

lemma set_offsets_length: "length (set_offsets k xs) = length xs"
  by (induction xs arbitrary: k) simp_all

lemma set_offsets_clear: "map clear_offset (set_offsets k xs) = map clear_offset xs"
  by (induction xs arbitrary: k) (simp_all add: clear_offset_def)

lemma set_offsets_name: "map bucket_name (set_offsets k xs) = map bucket_name xs"
  by (induction xs arbitrary: k) simp_all

lemma set_offsets_pos:
  "map (\<lambda>b. alphabet_pos (bucket_name b)) (set_offsets k xs) =
   map (\<lambda>b. alphabet_pos (bucket_name b)) xs"
  by (induction xs arbitrary: k) simp_all

lemma set_offsets_count:
  "map (\<lambda>b. api_count (bucket_api_data b)) (set_offsets k xs) =
   map (\<lambda>b. api_count (bucket_api_data b)) xs"
  by (induction xs arbitrary: k) simp_all

lemma set_offsets_nth:
  "i < length xs \<Longrightarrow>
   api_offset (bucket_api_data (set_offsets k xs ! i)) =
     Some (k + sum_list (map (\<lambda>b. api_count (bucket_api_data b)) (take i xs)))"
proof (induction xs arbitrary: k i)
  case Nil
  then show ?case by simp
next
  case (Cons x xs)
  show ?case
  proof (cases i)
    case 0
    then show ?thesis by simp
  next
    case (Suc j)
    then have "j < length xs" using Cons.prems by simp
    then show ?thesis using Cons.IH [of j] Suc by simp
  qed
qed

text \<open>
C6. When every bucket name is in the ordering table, \<open>sort_alphabetical_categories\<close>
  returns the buckets reordered (the same buckets, offsets apart) so that their positions
  in the table ascend, and the offset of each bucket is the sum of the counts of the
  buckets before it in that order. For the buckets \<open>B: 3\<close>, \<open>A: 2\<close>, \<open>0-9: 1\<close> the order is
  \<open>0-9\<close>, \<open>A\<close>, \<open>B\<close> with the offsets 0, 1, 3.
\<close>

theorem alphabetical_order_and_offsets:
  assumes "\<forall>b\<in>set categories. bucket_name b \<in> set alphabet"
  shows "\<exists>r. sort_alphabetical_categories categories = Inr r \<and>
     mset (map clear_offset r) = mset (map clear_offset categories) \<and>
     sorted (map (\<lambda>b. alphabet_pos (bucket_name b)) r) \<and>
     (\<forall>i<length r. api_offset (bucket_api_data (r ! i)) =
        Some (sum_list (map (\<lambda>b. api_count (bucket_api_data b)) (take i r))))"
proof -
  let ?f = "\<lambda>b. alphabet_pos (bucket_name b)"
  let ?s = "sort_key ?f categories"
  let ?r = "set_offsets 0 ?s"
  have r: "sort_alphabetical_categories categories = Inr ?r"
    unfolding sort_alphabetical_categories_def sort_keys_present [OF assms]
    by (simp add: sort_key_pairs)
  have p: "mset (map clear_offset ?r) = mset (map clear_offset categories)"
    by (simp add: set_offsets_clear)
  have s: "sorted (map ?f ?r)" unfolding set_offsets_pos by simp
  have c: "map (\<lambda>b. api_count (bucket_api_data b)) (take i ?r) =
           map (\<lambda>b. api_count (bucket_api_data b)) (take i ?s)" for i
    using set_offsets_count [of 0 ?s] by (metis take_map)
  have o: "\<forall>i<length ?r. api_offset (bucket_api_data (?r ! i)) =
        Some (sum_list (map (\<lambda>b. api_count (bucket_api_data b)) (take i ?r)))"
    unfolding c by (simp add: set_offsets_length set_offsets_nth)
  show ?thesis using r p s o by blast
qed

theorem alphabetical_order_and_offsets_witness:
  "map_sum id (map (\<lambda>b. (bucket_name b, api_offset (bucket_api_data b))))
     (sort_alphabetical_categories
        [mk_bucket (ustr ''B'') 3, mk_bucket (ustr ''A'') 2, mk_bucket (ustr ''0-9'') 1]) =
     Inr [(ustr ''0-9'', Some 0), (ustr ''A'', Some 1), (ustr ''B'', Some 3)] \<and>
   (\<exists>r. sort_alphabetical_categories
      [mk_bucket (ustr ''B'') 3, mk_bucket (ustr ''A'') 2, mk_bucket (ustr ''0-9'') 1] = Inr r \<and>
      sorted (map (\<lambda>b. alphabet_pos (bucket_name b)) r) \<and>
      (\<forall>i<length r. api_offset (bucket_api_data (r ! i)) =
        Some (sum_list (map (\<lambda>b. api_count (bucket_api_data b)) (take i r)))))"
proof -
  let ?in = "[mk_bucket (ustr ''B'') 3, mk_bucket (ustr ''A'') 2, mk_bucket (ustr ''0-9'') 1]"
  have h: "\<forall>b\<in>set ?in. bucket_name b \<in> set alphabet" by code_simp
  have e: "map_sum id (map (\<lambda>b. (bucket_name b, api_offset (bucket_api_data b))))
     (sort_alphabetical_categories ?in) =
     Inr [(ustr ''0-9'', Some 0), (ustr ''A'', Some 1), (ustr ''B'', Some 3)]"
    by code_simp
  show ?thesis using alphabetical_order_and_offsets [OF h] e by blast
qed

lemma unknown_bucket_fatal:
  "bucket_name b \<notin> set alphabet \<Longrightarrow>
   sort_alphabetical_categories (pre @ b # post) = Inl ValueError"
proof -
  assume a: "bucket_name b \<notin> set alphabet"
  have "sort_keys (pre @ b # post) = Inl ValueError"
  proof (induction pre)
    case Nil
    then show ?case using a by (simp add: index_of_absent)
  next
    case (Cons x pre)
    then show ?case
      by (cases "index_of alphabet (bucket_name x)") (simp_all add: index_of_error)
  qed
  then show ?thesis by (simp add: sort_alphabetical_categories_def)
qed

section \<open>Pagination aggregator (get_extended_content)\<close>

lemma take_window:
  fixes D :: "'a list"
  assumes "int (length D) \<le> S" and "0 < t" and "r = min t 100"
  shows "take (nat r) D @ take (nat (min t S - r)) (drop (nat r) D) = take (nat t) D"
proof -
  have r: "0 < r" "r \<le> t" using assms by auto
  have "take (nat r) D @ take (nat (min t S - r)) (drop (nat r) D) =
        take (nat r + nat (min t S - r)) D"
    by (simp add: take_add)
  also have "\<dots> = take (nat t) D"
  proof (cases "t \<le> S")
    case True
    then have "nat r + nat (min t S - r) = nat t" using r by auto
    then show ?thesis by simp
  next
    case False
    then have a: "length D \<le> nat t" using assms(1) by linarith
    have b: "length D \<le> nat r + nat (min t S - r)"
      using False assms(1) r by (cases "r \<le> S") auto
    show ?thesis using a b by simp
  qed
  finally show ?thesis .
qed

lemma drop_window: "0 \<le> off \<Longrightarrow> 0 \<le> r \<Longrightarrow> drop (nat (off + r)) xs = drop (nat r) (drop (nat off) xs)"
  by (simp add: nat_add_distrib add.commute)

lemma extended_loop_honest:
  assumes honest: "\<And>l k. 0 < l \<Longrightarrow> l \<le> lmax \<Longrightarrow> lo \<le> k \<Longrightarrow> k < hi \<Longrightarrow>
      fetch_page net fmt base_url locale l k =
        Inr (take (nat l) (drop (nat k) items), JInt (int (length items)))"
  shows "0 \<le> offset \<Longrightarrow> lo \<le> offset \<Longrightarrow> offset + max 0 n_total \<le> hi \<Longrightarrow>
     min n_total 100 \<le> lmax \<Longrightarrow> 0 < lmax \<Longrightarrow>
     \<exists>us. extended_loop net fmt base_url locale offset n_total ctx urls =
            (urls @ us, Inr (ctx @ take (nat n_total) (drop (nat offset) items))) \<and>
          (n_total \<le> 0 \<longrightarrow> us = []) \<and>
          (0 < n_total \<and> items = [] \<longrightarrow>
             us = [create_api_query base_url (min n_total 100) offset])"
proof (induction "nat n_total" arbitrary: offset n_total ctx urls rule: less_induct)
  case less
  show ?case
  proof (cases "0 < n_total")
    case False
    then show ?thesis by (subst extended_loop.simps) simp
  next
    case True
    define r where "r = min n_total 100"
    define S where "S = int (length items)"
    define url where "url = create_api_query base_url r offset"
    have r: "0 < r" "r \<le> n_total" "r \<le> lmax" using True less.prems by (auto simp: r_def)
    have "offset < hi" using True less.prems by auto
    then have page: "fetch_page net fmt base_url locale r offset =
        Inr (take (nat r) (drop (nat offset) items), JInt S)"
      unfolding S_def using honest r less.prems by blast
    define t' where "t' = min n_total S - r"
    have step: "extended_loop net fmt base_url locale offset n_total ctx urls =
        extended_loop net fmt base_url locale (offset + r) t'
          (ctx @ take (nat r) (drop (nat offset) items)) (urls @ [url])"
      using True page
      by (subst extended_loop.simps) (simp add: Let_def r_def [symmetric] t'_def url_def)
    have t': "t' \<le> n_total - r" by (auto simp: t'_def)
    have m: "nat t' < nat n_total" using t' r True by linarith
    have p1: "0 \<le> offset + r" "lo \<le> offset + r" using less.prems r by auto
    have p2: "offset + r + max 0 t' \<le> hi" using less.prems t' r True by auto
    have p3: "min t' 100 \<le> lmax" using t' r less.prems by auto
    obtain us where us: "extended_loop net fmt base_url locale (offset + r) t'
          (ctx @ take (nat r) (drop (nat offset) items)) (urls @ [url]) =
            ((urls @ [url]) @ us,
             Inr ((ctx @ take (nat r) (drop (nat offset) items)) @
                  take (nat t') (drop (nat (offset + r)) items)))"
      and e: "t' \<le> 0 \<longrightarrow> us = []"
      using less.hyps [OF m p1 p2 p3 less.prems(5)] by blast
    have "int (length (drop (nat offset) items)) \<le> S" by (simp add: S_def)
    then have w: "take (nat r) (drop (nat offset) items) @
        take (nat t') (drop (nat r) (drop (nat offset) items)) =
        take (nat n_total) (drop (nat offset) items)"
      unfolding t'_def using True r_def by (rule take_window)
    have d: "drop (nat (offset + r)) items = drop (nat r) (drop (nat offset) items)"
      using less.prems(1) r(1) by (intro drop_window) auto
    have res: "extended_loop net fmt base_url locale offset n_total ctx urls =
        (urls @ url # us, Inr (ctx @ take (nat n_total) (drop (nat offset) items)))"
      unfolding step us d using w by simp
    have one: "us = []" if "items = []"
    proof -
      have "S = 0" using that by (simp add: S_def)
      then have "t' \<le> 0" using r True by (auto simp: t'_def)
      then show ?thesis using e by blast
    qed
    show ?thesis
      using res True one unfolding url_def r_def by auto
  qed
qed


text \<open>
C3 (as amended). \<open>get_extended_content\<close> ends for every server (the loop is a total
  function: the measure is the remaining total). Against a server that holds a list of
  records, answers a page request \<open>(limit, offset)\<close> with the records from \<open>offset\<close> on, at
  most \<open>limit\<close> of them, and reports the length of the list as the count, the result is
  the records \<open>offset .. offset + requested_total - 1\<close> that the server holds:
  \<open>min(requested_total, server_total - offset)\<close> records, which is
  \<open>min(requested_total, server_total)\<close> from offset 0. A requested total of 0 (or less)
  asks for no page. A server without records is asked for one page when the requested
  total is positive: the count is known from a response only.
\<close>

theorem pagination_returns_window:
  assumes "\<forall>l k. 0 < l \<and> l \<le> min requested_total 100 \<and> offset \<le> k \<and> k < offset + requested_total
      \<longrightarrow> fetch_page net fmt base_url locale l k =
             Inr (take (nat l) (drop (nat k) items), JInt (int (length items)))"
    and "0 \<le> offset"
  shows "\<exists>urls. get_extended_content net fmt base_url locale offset requested_total =
             (urls, Inr (take (nat requested_total) (drop (nat offset) items))) \<and>
           int (length (take (nat requested_total) (drop (nat offset) items))) =
             max 0 (min requested_total (int (length items) - offset)) \<and>
           (requested_total \<le> 0 \<longrightarrow> urls = []) \<and>
           (0 < requested_total \<and> items = [] \<longrightarrow>
              urls = [create_api_query base_url (min requested_total 100) offset])"
proof -
  have len: "int (length (take (nat requested_total) (drop (nat offset) items))) =
             max 0 (min requested_total (int (length items) - offset))"
    using assms(2) by auto
  show ?thesis
  proof (cases "0 < requested_total")
    case False
    then have "get_extended_content net fmt base_url locale offset requested_total = ([], Inr [])"
      unfolding get_extended_content_def by (subst extended_loop.simps) simp
    then show ?thesis using False len by simp
  next
    case True
    have h: "fetch_page net fmt base_url locale l k =
        Inr (take (nat l) (drop (nat k) items), JInt (int (length items)))"
      if "0 < l" "l \<le> min requested_total 100" "offset \<le> k" "k < offset + requested_total"
      for l k
      using assms(1) that by blast
    have "\<exists>us. extended_loop net fmt base_url locale offset requested_total [] [] =
            ([] @ us, Inr ([] @ take (nat requested_total) (drop (nat offset) items))) \<and>
          (requested_total \<le> 0 \<longrightarrow> us = []) \<and>
          (0 < requested_total \<and> items = [] \<longrightarrow>
             us = [create_api_query base_url (min requested_total 100) offset])"
    proof (rule extended_loop_honest [where lmax = "min requested_total 100" and lo = offset
          and hi = "offset + requested_total"])
      show "fetch_page net fmt base_url locale l k =
          Inr (take (nat l) (drop (nat k) items), JInt (int (length items)))"
        if "0 < l" "l \<le> min requested_total 100" "offset \<le> k" "k < offset + requested_total"
        for l k
        using that by (rule h)
    qed (use True assms(2) in auto)
    then show ?thesis
      unfolding get_extended_content_def using len by auto
  qed
qed

theorem pagination_returns_window_witness:
  "get_extended_content
     \<lparr> http_get = (\<lambda>url. Inr (JObj
         [(ustr ''data'', JArr (take (url ! (length url - 10) - 48) (drop (last url - 48)
             [JObj [(ustr ''title'', JStr (ustr ''a''))],
              JObj [(ustr ''title'', JStr (ustr ''b''))]]))),
          (ustr ''meta'', JObj [(ustr ''count'', JInt 2)])])),
       http_post = (\<lambda>url body. Inl RequestError) \<rparr>
     (\<lambda>x. []) (ustr ''u'') (ustr ''fi'') 0 3 =
   ([ustr ''u&limit=3&offset=0''],
    Inr [\<lparr>media_name = ustr '' a'', media_description = JStr [], media_duration = [],
          media_image = [], media_api_data = \<lparr>media_type = JStr [], media_yle_id = []\<rparr>\<rparr>,
         \<lparr>media_name = ustr '' b'', media_description = JStr [], media_duration = [],
          media_image = [], media_api_data = \<lparr>media_type = JStr [], media_yle_id = []\<rparr>\<rparr>]) \<and>
   (\<exists>urls. get_extended_content
     \<lparr> http_get = (\<lambda>url. Inr (JObj
         [(ustr ''data'', JArr (take (url ! (length url - 10) - 48) (drop (last url - 48)
             [JObj [(ustr ''title'', JStr (ustr ''a''))],
              JObj [(ustr ''title'', JStr (ustr ''b''))]]))),
          (ustr ''meta'', JObj [(ustr ''count'', JInt 2)])])),
       http_post = (\<lambda>url body. Inl RequestError) \<rparr>
     (\<lambda>x. []) (ustr ''u'') (ustr ''fi'') 0 3 =
       (urls, Inr (take (nat 3) (drop (nat 0)
          [\<lparr>media_name = ustr '' a'', media_description = JStr [], media_duration = [],
             media_image = [],
             media_api_data = \<lparr>media_type = JStr [], media_yle_id = []\<rparr>\<rparr>,
           \<lparr>media_name = ustr '' b'', media_description = JStr [], media_duration = [],
             media_image = [],
             media_api_data = \<lparr>media_type = JStr [], media_yle_id = []\<rparr>\<rparr>]))))"
proof -
  let ?net = "\<lparr> http_get = (\<lambda>url. Inr (JObj
         [(ustr ''data'', JArr (take (url ! (length url - 10) - 48) (drop (last url - 48)
             [JObj [(ustr ''title'', JStr (ustr ''a''))],
              JObj [(ustr ''title'', JStr (ustr ''b''))]]))),
          (ustr ''meta'', JObj [(ustr ''count'', JInt 2)])])),
       http_post = (\<lambda>(url :: pystr) (body :: json). (Inl RequestError :: py_error + json)) \<rparr>"
  let ?fmt = "\<lambda>x :: json. [] :: pystr"
  let ?items = "[\<lparr>media_name = ustr '' a'', media_description = JStr [], media_duration = [],
          media_image = [], media_api_data = \<lparr>media_type = JStr [], media_yle_id = []\<rparr>\<rparr>,
         \<lparr>media_name = ustr '' b'', media_description = JStr [], media_duration = [],
          media_image = [], media_api_data = \<lparr>media_type = JStr [], media_yle_id = []\<rparr>\<rparr>]"
  have page: "fetch_page ?net ?fmt (ustr ''u'') (ustr ''fi'') l k =
      Inr (take (nat l) (drop (nat k) ?items), JInt (int (length ?items)))"
    if "l \<in> {1, 2, 3}" "k \<in> {0, 1, 2}" for l k :: int
    using that by (elim insertE emptyE; hypsubst; code_simp)
  have h: "\<forall>l k. 0 < l \<and> l \<le> min 3 100 \<and> 0 \<le> k \<and> k < 0 + 3
      \<longrightarrow> fetch_page ?net ?fmt (ustr ''u'') (ustr ''fi'') l k =
             Inr (take (nat l) (drop (nat k) ?items), JInt (int (length ?items)))"
  proof (intro allI impI)
    fix l k :: int
    assume a: "0 < l \<and> l \<le> min 3 100 \<and> 0 \<le> k \<and> k < 0 + 3"
    then have "l \<in> {1, 2, 3}" "k \<in> {0, 1, 2}" by auto
    then show "fetch_page ?net ?fmt (ustr ''u'') (ustr ''fi'') l k =
             Inr (take (nat l) (drop (nat k) ?items), JInt (int (length ?items)))"
      by (rule page)
  qed
  have z: "(0::int) \<le> 0" by simp
  have r: "\<exists>urls. get_extended_content ?net ?fmt (ustr ''u'') (ustr ''fi'') 0 3 =
      (urls, Inr (take (nat 3) (drop (nat 0) ?items)))"
    using pagination_returns_window [OF h z] by blast
  have e: "get_extended_content ?net ?fmt (ustr ''u'') (ustr ''fi'') 0 3 =
      ([ustr ''u&limit=3&offset=0''], Inr ?items)"
    by code_simp
  show ?thesis using e r by (rule conjI)
qed

text \<open>
C3 as stated fails in its last part: with \<open>server_total = 0\<close> and \<open>requested_total = 5\<close> one
  page is fetched (and no record returned), not zero pages.
\<close>

theorem empty_server_fetch_counterexample:
  "get_extended_content
     \<lparr> http_get = (\<lambda>url. Inr (JObj [(ustr ''data'', JArr []),
                                     (ustr ''meta'', JObj [(ustr ''count'', JInt 0)])])),
       http_post = (\<lambda>url body. Inl RequestError) \<rparr>
     (\<lambda>x. []) (ustr ''u'') (ustr ''fi'') 0 5 =
   ([ustr ''u&limit=5&offset=0''], Inr [])"
  by code_simp

end
